theory Spec2Isabelle
  imports Complex_Main
begin

section \<open>The CLIP embedding service (embedding.py, models.py, main.py)\<close>

text \<open>
  The service wraps a pretrained OpenCLIP encoder behind four HTTP handlers. The encoder,
  the tokenizer, the image decoder, the file system and the clock are outside the
  repository; they appear below as parameters. Everything the handlers do around them
  (guards, exception handling, counters, response construction) is translated from the
  Python source, exceptions as \<open>Inl\<close> values, the two module globals of main.py as
  fields of a state record that every handler takes and returns.
\<close>

subsection \<open>Values\<close>

text \<open>
  A float32 value is a real number or one of inf, -inf and nan. The arithmetic of the
  torch and numpy kernels is modelled in its range: a result of magnitude at or above
  \<open>f32_overflow\<close> (the largest float32 plus half a unit in the last place) becomes an
  infinity, one of magnitude at or below \<open>f32_underflow\<close> (half the least subnormal)
  becomes 0, division by zero gives an infinity or nan and division by an infinity
  gives 0, none of them raising. Rounding of the mantissa (a relative error of at most
  \<open>2^-24\<close> per operation) and the sign of zero are not modelled.
\<close>

type_synonym bytes = "nat list"

datatype pyfloat = Fin real | PInf | NInf | NaN

type_synonym ndarray = "pyfloat list"

definition f32_overflow :: real where
  "f32_overflow = 2 ^ 128 - 2 ^ 103"

definition f32_underflow :: real where
  "f32_underflow = 1 / 2 ^ 150"

definition flush32 :: "real \<Rightarrow> real" where
  "flush32 x = (if \<bar>x\<bar> \<le> f32_underflow then 0 else x)"

definition fl32 :: "real \<Rightarrow> pyfloat" where
  "fl32 x =
     (if f32_overflow \<le> x then PInf
      else if x \<le> - f32_overflow then NInf
      else Fin (flush32 x))"

fun sq32 :: "pyfloat \<Rightarrow> pyfloat" where
  "sq32 (Fin x) = fl32 (x * x)"
| "sq32 PInf = PInf"
| "sq32 NInf = PInf"
| "sq32 NaN = NaN"

fun add32 :: "pyfloat \<Rightarrow> pyfloat \<Rightarrow> pyfloat" where
  "add32 (Fin a) (Fin b) = fl32 (a + b)"
| "add32 NaN y = NaN"
| "add32 x NaN = NaN"
| "add32 PInf NInf = NaN"
| "add32 NInf PInf = NaN"
| "add32 PInf y = PInf"
| "add32 x PInf = PInf"
| "add32 NInf y = NInf"
| "add32 x NInf = NInf"

fun sqrt32 :: "pyfloat \<Rightarrow> pyfloat" where
  "sqrt32 (Fin x) = (if x < 0 then NaN else fl32 (sqrt x))"
| "sqrt32 PInf = PInf"
| "sqrt32 NInf = NaN"
| "sqrt32 NaN = NaN"

text \<open>A finite value divided by a float32 value.\<close>

fun div32 :: "real \<Rightarrow> pyfloat \<Rightarrow> pyfloat" where
  "div32 x (Fin n) =
     (if n = 0 then (if x = 0 then NaN else if 0 < x then PInf else NInf) else fl32 (x / n))"
| "div32 x PInf = Fin 0"
| "div32 x NInf = Fin 0"
| "div32 x NaN = NaN"

text \<open>
  The Euclidean norm as both \<open>tensor.norm(dim=-1)\<close> and \<open>np.linalg.norm\<close> compute it
  on float32 data: the square root of the sum of the squares, every step in float32.
  (The order in which a kernel adds the squares is its own; the sum here runs from the
  right.)
\<close>

fun sum32 :: "pyfloat list \<Rightarrow> pyfloat" where
  "sum32 [] = Fin 0"
| "sum32 (x # xs) = add32 x (sum32 xs)"

definition norm32 :: "pyfloat list \<Rightarrow> pyfloat" where
  "norm32 xs = sqrt32 (sum32 (map sq32 xs))"

text \<open>
  A feature row of the encoder. The service loads ViT-B-32 (\<open>model_name\<close>), whose
  text and image towers project to 512 features: a row is a list of 512 finite values.
\<close>

typedef feature_row = "{v :: real list. length v = 512}"
  morphisms components Feature_row
  by (rule exI [of _ "replicate 512 0"]) simp

datatype py_error =
    RuntimeError string
  | ValueError string
  | AttributeError string
  | OSError string
  | ValidationError string

text \<open>\<open>str(e)\<close> of an exception: its message.\<close>

fun str_of :: "py_error \<Rightarrow> string" where
  "str_of (RuntimeError m) = m"
| "str_of (ValueError m) = m"
| "str_of (AttributeError m) = m"
| "str_of (OSError m) = m"
| "str_of (ValidationError m) = m"

text \<open>
  The calls a handler makes to the outside, in order. The log is a ghost field: the
  source keeps no such list, it only makes the calls.
\<close>

datatype ext_call =
    EncodeTextCall "string option"
  | EncodeTextBatchCall "string list"
  | EncodeImageCall bytes
  | UploadRead
  | FileOpen string

subsection \<open>embedding.py: EmbeddingService\<close>

text \<open>
  The loaded model with its tokenizer and preprocessing transform: what
  \<open>tokenizer([text])\<close> followed by \<open>model.encode_text\<close> returns (the feature row, or
  the exception raised on the way), and the same for an image (\<open>Image.open\<close>,
  \<open>convert\<close>, \<open>preprocess\<close>, \<open>model.encode_image\<close>). A text argument is
  \<open>string option\<close> because the batch handler may pass Python's \<open>None\<close>.
\<close>

record clip_model =
  text_features :: "string option \<Rightarrow> py_error + feature_row"
  text_batch_features :: "string list \<Rightarrow> py_error + feature_row list"
  image_features :: "bytes \<Rightarrow> py_error + feature_row"

record EmbeddingService =
  model :: "clip_model option"
  model_name :: string
  pretrained :: string
  embedding_dim :: nat

definition is_loaded :: "EmbeddingService \<Rightarrow> bool" where
  "is_loaded svc = (model svc \<noteq> None)"

definition apply_prompt_template :: "EmbeddingService \<Rightarrow> string \<Rightarrow> string \<Rightarrow> string" where
  "apply_prompt_template svc txt template =
     (if template = ''visual'' then
        ''A digital art card featuring '' @ txt @ '', with emphasis on visual style and composition''
      else if template = ''content'' then
        ''A digital art card depicting '' @ txt @ '', focused on the subject matter and themes''
      else txt)"

text \<open>
  \<open>features / features.norm(dim=-1, keepdim=True)\<close>: the norm of the row, and every
  component divided by it.
\<close>

definition unit_normalize :: "feature_row \<Rightarrow> ndarray" where
  "unit_normalize v =
     (let n = norm32 (map Fin (components v)) in map (\<lambda>x. div32 x n) (components v))"

definition encode_text ::
  "EmbeddingService \<Rightarrow> string option \<Rightarrow> (py_error + ndarray) \<times> ext_call list" where
  "encode_text svc txt =
     (if \<not> is_loaded svc then (Inl (RuntimeError ''Model not loaded''), [])
      else
        (case text_features (the (model svc)) txt of
           Inl e \<Rightarrow> (Inl (RuntimeError (''Text encoding failed: '' @ str_of e)), [EncodeTextCall txt])
         | Inr v \<Rightarrow> (Inr (unit_normalize v), [EncodeTextCall txt])))"

definition encode_image ::
  "EmbeddingService \<Rightarrow> bytes \<Rightarrow> (py_error + ndarray) \<times> ext_call list" where
  "encode_image svc image_bytes =
     (if \<not> is_loaded svc then (Inl (RuntimeError ''Model not loaded''), [])
      else
        (case image_features (the (model svc)) image_bytes of
           Inl e \<Rightarrow> (Inl (RuntimeError (''Image encoding failed: '' @ str_of e)), [EncodeImageCall image_bytes])
         | Inr v \<Rightarrow> (Inr (unit_normalize v), [EncodeImageCall image_bytes])))"

definition encode_batch_text ::
  "EmbeddingService \<Rightarrow> string list \<Rightarrow> (py_error + ndarray list) \<times> ext_call list" where
  "encode_batch_text svc texts =
     (if \<not> is_loaded svc then (Inl (RuntimeError ''Model not loaded''), [])
      else
        (case text_batch_features (the (model svc)) texts of
           Inl e \<Rightarrow> (Inl (RuntimeError (''Batch text encoding failed: '' @ str_of e)), [EncodeTextBatchCall texts])
         | Inr vs \<Rightarrow> (Inr (map unit_normalize vs), [EncodeTextBatchCall texts])))"

text \<open>
  \<open>validate_embedding\<close>: \<open>np.linalg.norm\<close> of the array within 0.01 of 1. A
  comparison with nan is false, and an infinite norm is not within 0.01 of 1.
\<close>

definition validate_embedding :: "ndarray \<Rightarrow> bool" where
  "validate_embedding e =
     (case norm32 e of Fin magnitude \<Rightarrow> \<bar>magnitude - 1\<bar> < 1 / 100 | _ \<Rightarrow> False)"

subsection \<open>models.py: request and response schemas\<close>

record TextEmbeddingRequest =
  req_text :: string
  req_prompt_template :: string

record BatchItem =
  item_text :: "string option"
  item_path :: "string option"
  item_id :: "string option"

record BatchEmbeddingRequest =
  batch_type :: string
  batch_items :: "BatchItem list"

record TextEmbeddingResponse =
  text_embedding :: ndarray
  text_model :: string
  text_processing_time_ms :: real
  processed_text :: string

record ImageEmbeddingResponse =
  image_embedding :: ndarray
  image_model :: string
  image_processing_time_ms :: real

record BatchEmbeddingItem =
  entry_id :: "string option"
  entry_embedding :: "ndarray option"
  entry_success :: bool
  entry_error :: "string option"

record BatchEmbeddingResponse =
  embeddings :: "BatchEmbeddingItem list"
  total :: int
  successful :: int
  failed :: int
  total_time_ms :: real

record HealthResponse =
  status :: string
  model_loaded :: bool
  health_model_name :: "string option"
  health_embedding_dim :: "nat option"
  last_request :: "nat option"
  total_requests :: int

text \<open>
  Constructing a response validates it: \<open>embedding\<close> is declared with
  \<open>min_items=512, max_items=512\<close>, so any other length raises inside the handler's
  \<open>try\<close>. (The message is pydantic's; only its gist is kept.)
\<close>

definition new_TextEmbeddingResponse ::
  "ndarray \<Rightarrow> string \<Rightarrow> real \<Rightarrow> string \<Rightarrow> py_error + TextEmbeddingResponse" where
  "new_TextEmbeddingResponse emb mdl ms ptxt =
     (if length emb = 512 then
        Inr \<lparr>text_embedding = emb, text_model = mdl, text_processing_time_ms = ms, processed_text = ptxt\<rparr>
      else Inl (ValidationError ''embedding: ensure this value has exactly 512 items''))"

definition new_ImageEmbeddingResponse ::
  "ndarray \<Rightarrow> string \<Rightarrow> real \<Rightarrow> py_error + ImageEmbeddingResponse" where
  "new_ImageEmbeddingResponse emb mdl ms =
     (if length emb = 512 then
        Inr \<lparr>image_embedding = emb, image_model = mdl, image_processing_time_ms = ms\<rparr>
      else Inl (ValidationError ''embedding: ensure this value has exactly 512 items''))"

subsection \<open>main.py: the handlers\<close>

datatype HTTPException = HTTPException nat string

text \<open>
  The module globals: the service, \<open>request_counter\<close> and \<open>last_request_time\<close>
  (a datetime, here a timestamp), and the ghost log of outside calls.
\<close>

record app_state =
  embedding_service :: EmbeddingService
  request_counter :: int
  last_request_time :: "nat option"
  io_log :: "ext_call list"

text \<open>What the clock gives one request: \<open>datetime.now()\<close> and the elapsed milliseconds.\<close>

record clock =
  now :: nat
  elapsed_ms :: real

definition health_check :: "app_state \<Rightarrow> HealthResponse \<times> app_state" where
  "health_check st =
     (let svc = embedding_service st; loaded = is_loaded svc
      in (\<lparr>status = (if loaded then ''healthy'' else ''degraded''),
           model_loaded = loaded,
           health_model_name = (if loaded then Some (model_name svc) else None),
           health_embedding_dim = (if loaded then Some (embedding_dim svc) else None),
           last_request = last_request_time st,
           total_requests = request_counter st\<rparr>, st))"

definition embed_text ::
  "clock \<Rightarrow> app_state \<Rightarrow> TextEmbeddingRequest \<Rightarrow> (HTTPException + TextEmbeddingResponse) \<times> app_state" where
  "embed_text clk st request =
     (let svc = embedding_service st;
          ptxt = apply_prompt_template svc (req_text request) (req_prompt_template request)
      in case encode_text svc (Some ptxt) of
           (Inl e, calls) \<Rightarrow>
             (Inl (HTTPException 500 (''Text embedding generation failed: '' @ str_of e)),
              st\<lparr>io_log := io_log st @ calls\<rparr>)
         | (Inr emb, calls) \<Rightarrow>
             (let st' = st\<lparr>request_counter := request_counter st + 1,
                           last_request_time := Some (now clk),
                           io_log := io_log st @ calls\<rparr>
              in case new_TextEmbeddingResponse emb (model_name svc) (elapsed_ms clk) ptxt of
                   Inl e \<Rightarrow>
                     (Inl (HTTPException 500 (''Text embedding generation failed: '' @ str_of e)), st')
                 | Inr resp \<Rightarrow> (Inr resp, st')))"

text \<open>An upload: its declared content type and what \<open>await file.read()\<close> gives.\<close>

record UploadFile =
  content_type :: "string option"
  read_result :: "py_error + bytes"

definition allowed_types :: "string list" where
  "allowed_types = [''image/png'', ''image/jpeg'', ''image/jpg'', ''image/gif'']"

definition show_content_type :: "string option \<Rightarrow> string" where
  "show_content_type ct = (case ct of None \<Rightarrow> ''None'' | Some s \<Rightarrow> s)"

definition type_allowed :: "string option \<Rightarrow> bool" where
  "type_allowed ct = (case ct of None \<Rightarrow> False | Some s \<Rightarrow> s \<in> set allowed_types)"

definition embed_image ::
  "clock \<Rightarrow> app_state \<Rightarrow> UploadFile \<Rightarrow> (HTTPException + ImageEmbeddingResponse) \<times> app_state" where
  "embed_image clk st file =
     (if \<not> type_allowed (content_type file) then
        (Inl (HTTPException 400 (''Unsupported file type: '' @ show_content_type (content_type file)
                                  @ ''. Allowed: PNG, JPG, GIF'')), st)
      else
        (let svc = embedding_service st; st0 = st\<lparr>io_log := io_log st @ [UploadRead]\<rparr>
         in case read_result file of
              Inl e \<Rightarrow>
                (Inl (HTTPException 500 (''Image embedding generation failed: '' @ str_of e)), st0)
            | Inr image_bytes \<Rightarrow>
                (case encode_image svc image_bytes of
                   (Inl e, calls) \<Rightarrow>
                     (Inl (HTTPException 500 (''Image embedding generation failed: '' @ str_of e)),
                      st0\<lparr>io_log := io_log st0 @ calls\<rparr>)
                 | (Inr emb, calls) \<Rightarrow>
                     (let st' = st0\<lparr>request_counter := request_counter st0 + 1,
                                    last_request_time := Some (now clk),
                                    io_log := io_log st0 @ calls\<rparr>
                      in case new_ImageEmbeddingResponse emb (model_name svc) (elapsed_ms clk) of
                           Inl e \<Rightarrow>
                             (Inl (HTTPException 500 (''Image embedding generation failed: '' @ str_of e)), st')
                         | Inr resp \<Rightarrow> (Inr resp, st')))))"

subsection \<open>main.py: the batch handler\<close>

text \<open>
  The loop body reads an item's fields with \<open>item.get(key, default)\<close>. The items are
  \<open>BatchItem\<close> objects (models.py: \<open>items: List[BatchItem]\<close>), and what \<open>.get\<close> does
  on one is decided by the pydantic base class, outside the repository: the handler
  takes the accessor as a parameter. \<open>pydantic_get\<close> is the accessor the service runs
  with: \<open>BatchItem\<close> declares the fields text, path and id and no method, and
  \<open>BaseModel\<close> has no attribute \<open>get\<close>, so the lookup raises. \<open>dict_get\<close> is the
  accessor the calls are written for, \<open>get\<close> of the dict of the item's fields
  (\<open>item.dict()\<close>): the keys text, path and id are present, with \<open>None\<close> for a field
  not given, and the default is returned for any other key only.
\<close>

type_synonym item_get = "BatchItem \<Rightarrow> string \<Rightarrow> string option \<Rightarrow> py_error + string option"

type_synonym file_system = "string \<Rightarrow> py_error + bytes"

definition no_attribute_get :: string where
  "no_attribute_get =
     [CHR 0x27] @ ''BatchItem'' @ [CHR 0x27] @ '' object has no attribute '' @ [CHR 0x27] @ ''get'' @ [CHR 0x27]"

definition pydantic_get :: item_get where
  "pydantic_get item k d = Inl (AttributeError no_attribute_get)"

definition dict_get :: item_get where
  "dict_get item k d =
     Inr (if k = ''text'' then item_text item
          else if k = ''path'' then item_path item
          else if k = ''id'' then item_id item
          else d)"

text \<open>
  The body of the inner \<open>try\<close> for one item: the entry it appends (\<open>None\<close> when the
  type is neither \<open>text\<close> nor \<open>image\<close> and no branch runs), or the exception it
  raises, with the outside calls made on the way.
\<close>

definition try_item ::
  "item_get \<Rightarrow> file_system \<Rightarrow> EmbeddingService \<Rightarrow> string \<Rightarrow> BatchItem
     \<Rightarrow> (py_error + BatchEmbeddingItem option) \<times> ext_call list" where
  "try_item getf fs svc ty item =
     (if ty = ''text'' then
        (case getf item ''text'' (Some []) of
           Inl e \<Rightarrow> (Inl e, [])
         | Inr txt \<Rightarrow>
             (case encode_text svc txt of
                (Inl e, calls) \<Rightarrow> (Inl e, calls)
              | (Inr emb, calls) \<Rightarrow>
                  (case getf item ''id'' None of
                     Inl e \<Rightarrow> (Inl e, calls)
                   | Inr i \<Rightarrow>
                       (Inr (Some \<lparr>entry_id = i, entry_embedding = Some emb,
                                   entry_success = True, entry_error = None\<rparr>), calls))))
      else if ty = ''image'' then
        (case getf item ''path'' None of
           Inl e \<Rightarrow> (Inl e, [])
         | Inr None \<Rightarrow> (Inl (ValueError ''Missing 'path' for image batch item''), [])
         | Inr (Some path) \<Rightarrow>
             (if path = [] then (Inl (ValueError ''Missing 'path' for image batch item''), [])
              else
                (case fs path of
                   Inl e \<Rightarrow> (Inl e, [FileOpen path])
                 | Inr image_bytes \<Rightarrow>
                     (case encode_image svc image_bytes of
                        (Inl e, calls) \<Rightarrow> (Inl e, FileOpen path # calls)
                      | (Inr emb, calls) \<Rightarrow>
                          (case getf item ''id'' None of
                             Inl e \<Rightarrow> (Inl e, FileOpen path # calls)
                           | Inr i \<Rightarrow>
                               (Inr (Some \<lparr>entry_id = i, entry_embedding = Some emb,
                                           entry_success = True, entry_error = None\<rparr>),
                                FileOpen path # calls))))))
      else (Inr None, []))"

text \<open>The loop's variables.\<close>

record batch_acc =
  acc_embeddings :: "BatchEmbeddingItem list"
  acc_successful :: int
  acc_failed :: int
  acc_log :: "ext_call list"

text \<open>
  The \<open>for\<close> loop. The \<open>except\<close> handler of an item builds the failure entry, and
  reads \<open>item.get("id")\<close> for it: an exception raised there is raised outside the
  inner \<open>try\<close> and leaves the loop (\<open>Some e\<close>, with the variables as they stand).
\<close>

fun batch_loop ::
  "item_get \<Rightarrow> file_system \<Rightarrow> EmbeddingService \<Rightarrow> string \<Rightarrow> BatchItem list \<Rightarrow> batch_acc
     \<Rightarrow> py_error option \<times> batch_acc" where
  "batch_loop getf fs svc ty [] acc = (None, acc)"
| "batch_loop getf fs svc ty (item # rest) acc =
     (case try_item getf fs svc ty item of
        (Inr None, calls) \<Rightarrow>
          batch_loop getf fs svc ty rest (acc\<lparr>acc_log := acc_log acc @ calls\<rparr>)
      | (Inr (Some entry), calls) \<Rightarrow>
          batch_loop getf fs svc ty rest
            (acc\<lparr>acc_embeddings := acc_embeddings acc @ [entry],
                 acc_successful := acc_successful acc + 1,
                 acc_log := acc_log acc @ calls\<rparr>)
      | (Inl e, calls) \<Rightarrow>
          (case getf item ''id'' None of
             Inl e' \<Rightarrow> (Some e', acc\<lparr>acc_log := acc_log acc @ calls\<rparr>)
           | Inr i \<Rightarrow>
               batch_loop getf fs svc ty rest
                 (acc\<lparr>acc_embeddings := acc_embeddings acc @
                        [\<lparr>entry_id = i, entry_embedding = None,
                          entry_success = False, entry_error = Some (str_of e)\<rparr>],
                      acc_failed := acc_failed acc + 1,
                      acc_log := acc_log acc @ calls\<rparr>)))"

definition embed_batch ::
  "item_get \<Rightarrow> file_system \<Rightarrow> clock \<Rightarrow> app_state \<Rightarrow> BatchEmbeddingRequest
     \<Rightarrow> (HTTPException + BatchEmbeddingResponse) \<times> app_state" where
  "embed_batch getf fs clk st request =
     (case batch_loop getf fs (embedding_service st) (batch_type request) (batch_items request)
             \<lparr>acc_embeddings = [], acc_successful = 0, acc_failed = 0, acc_log = []\<rparr> of
        (Some e, acc) \<Rightarrow>
          (Inl (HTTPException 500 (''Batch embedding failed: '' @ str_of e)),
           st\<lparr>io_log := io_log st @ acc_log acc\<rparr>)
      | (None, acc) \<Rightarrow>
          (Inr \<lparr>embeddings = acc_embeddings acc,
                total = int (length (batch_items request)),
                successful = acc_successful acc,
                failed = acc_failed acc,
                total_time_ms = elapsed_ms clk\<rparr>,
           st\<lparr>request_counter := request_counter st + acc_successful acc,
              last_request_time := Some (now clk),
              io_log := io_log st @ acc_log acc\<rparr>))"

subsection \<open>Concrete services and requests\<close>

text \<open>
  \<open>EmbeddingService.__init__\<close> sets the fields and then loads the model. The service as
  the constructor leaves it before \<open>_load_model\<close>, a loaded one, and the module globals
  as main.py initialises them.
\<close>

definition unloaded_service :: EmbeddingService where
  "unloaded_service =
     \<lparr>model = None, model_name = ''ViT-B-32'', pretrained = ''laion2b_s34b_b79k'', embedding_dim = 512\<rparr>"

definition load_model :: "clip_model \<Rightarrow> EmbeddingService \<Rightarrow> EmbeddingService" where
  "load_model m svc = svc\<lparr>model := Some m\<rparr>"

definition initial_state :: "EmbeddingService \<Rightarrow> app_state" where
  "initial_state svc =
     \<lparr>embedding_service = svc, request_counter = 0, last_request_time = None, io_log = []\<rparr>"

text \<open>
  Encoders to run the handlers on. \<open>axis_model\<close> returns the first unit vector for
  every input it can decode (it cannot decode an empty upload); \<open>constant_model\<close>
  returns a given row for every input. The rows: one of norm 5, the zero row, a row
  whose squares overflow float32, and a row whose squares underflow to 0.
\<close>

definition axis_row :: feature_row where
  "axis_row = Feature_row (1 # replicate 511 0)"

definition axis_model :: clip_model where
  "axis_model =
     \<lparr>text_features = (\<lambda>t. Inr axis_row),
      text_batch_features = (\<lambda>ts. Inr (map (\<lambda>t. axis_row) ts)),
      image_features = (\<lambda>b. if b = [] then Inl (OSError ''cannot identify image file'') else Inr axis_row)\<rparr>"

definition constant_model :: "feature_row \<Rightarrow> clip_model" where
  "constant_model row =
     \<lparr>text_features = (\<lambda>t. Inr row),
      text_batch_features = (\<lambda>ts. Inr (map (\<lambda>t. row) ts)),
      image_features = (\<lambda>b. Inr row)\<rparr>"

definition slope_row :: feature_row where
  "slope_row = Feature_row (3 # 4 # replicate 510 0)"

definition zero_row :: feature_row where
  "zero_row = Feature_row (replicate 512 0)"

definition huge_row :: feature_row where
  "huge_row = Feature_row (replicate 512 (10 ^ 20))"

definition tiny_row :: feature_row where
  "tiny_row = Feature_row (replicate 512 (1 / 10 ^ 30))"

definition noon :: clock where
  "noon = \<lparr>now = 1700000000, elapsed_ms = 12\<rparr>"

definition png_bytes :: bytes where
  "png_bytes = [137, 80, 78, 71]"

definition one_file :: file_system where
  "one_file p = (if p = ''cards/pepe.png'' then Inr png_bytes else Inl (OSError ''No such file or directory''))"

definition pepe_request :: TextEmbeddingRequest where
  "pepe_request = \<lparr>req_text = ''pepe'', req_prompt_template = ''raw''\<rparr>"

definition png_upload :: UploadFile where
  "png_upload = \<lparr>content_type = Some ''image/png'', read_result = Inr png_bytes\<rparr>"

definition pdf_upload :: UploadFile where
  "pdf_upload = \<lparr>content_type = Some ''application/pdf'', read_result = Inr png_bytes\<rparr>"

definition broken_upload :: UploadFile where
  "broken_upload = \<lparr>content_type = Some ''image/gif'', read_result = Inl (OSError ''read failed'')\<rparr>"

definition one_text_batch :: BatchEmbeddingRequest where
  "one_text_batch =
     \<lparr>batch_type = ''text'',
      batch_items = [\<lparr>item_text = Some ''pepe'', item_path = None, item_id = Some ''1''\<rparr>]\<rparr>"

definition empty_batch :: BatchEmbeddingRequest where
  "empty_batch = \<lparr>batch_type = ''text'', batch_items = []\<rparr>"

definition image_batch :: BatchEmbeddingRequest where
  "image_batch =
     \<lparr>batch_type = ''image'',
      batch_items = [\<lparr>item_text = None, item_path = Some ''cards/pepe.png'', item_id = Some ''a''\<rparr>,
                     \<lparr>item_text = None, item_path = None, item_id = Some ''b''\<rparr>]\<rparr>"

text \<open>
  Two predicates for the batch loop's invariants: an entry carries either an embedding
  or an error, as its success flag says; and the two counters count the entries of each
  kind.
\<close>

definition entry_exclusive :: "BatchEmbeddingItem \<Rightarrow> bool" where
  "entry_exclusive e =
     (if entry_success e then entry_embedding e \<noteq> None \<and> entry_error e = None
      else entry_embedding e = None \<and> entry_error e \<noteq> None)"

definition counts_agree :: "batch_acc \<Rightarrow> bool" where
  "counts_agree acc =
     (acc_successful acc = int (length (filter entry_success (acc_embeddings acc)))
      \<and> acc_failed acc = int (length (filter (\<lambda>e. \<not> entry_success e) (acc_embeddings acc))))"

text \<open>What the batch handler answers to \<open>image_batch\<close> when items are read as dicts.\<close>

definition image_batch_response :: BatchEmbeddingResponse where
  "image_batch_response =
     \<lparr>embeddings =
        [\<lparr>entry_id = Some ''a'', entry_embedding = Some (unit_normalize axis_row),
          entry_success = True, entry_error = None\<rparr>,
         \<lparr>entry_id = Some ''b'', entry_embedding = None,
          entry_success = False, entry_error = Some ''Missing 'path' for image batch item''\<rparr>],
      total = 2, successful = 1, failed = 1, total_time_ms = 12\<rparr>"

text \<open>More requests, and the states the handlers are run from below.\<close>

definition empty_upload :: UploadFile where
  "empty_upload = \<lparr>content_type = Some ''image/jpeg'', read_result = Inr []\<rparr>"

definition two_text_batch :: BatchEmbeddingRequest where
  "two_text_batch =
     \<lparr>batch_type = ''text'',
      batch_items = [\<lparr>item_text = Some ''pepe'', item_path = None, item_id = Some ''1''\<rparr>,
                     \<lparr>item_text = Some ''wojak'', item_path = None, item_id = None\<rparr>]\<rparr>"

definition two_text_response :: BatchEmbeddingResponse where
  "two_text_response =
     \<lparr>embeddings =
        [\<lparr>entry_id = Some ''1'', entry_embedding = Some (unit_normalize axis_row),
          entry_success = True, entry_error = None\<rparr>,
         \<lparr>entry_id = None, entry_embedding = Some (unit_normalize axis_row),
          entry_success = True, entry_error = None\<rparr>],
      total = 2, successful = 2, failed = 0, total_time_ms = 12\<rparr>"

definition empty_response :: BatchEmbeddingResponse where
  "empty_response = \<lparr>embeddings = [], total = 0, successful = 0, failed = 0, total_time_ms = 12\<rparr>"

definition cold_state :: app_state where
  "cold_state = initial_state unloaded_service"

definition ready_state :: app_state where
  "ready_state = initial_state (load_model axis_model unloaded_service)"

section \<open>Properties\<close>

subsection \<open>Prompt templates\<close>

text \<open>
  C3: for every text, the template \<open>raw\<close> returns the text unchanged, \<open>visual\<close> and
  \<open>content\<close> return it wrapped in their fixed phrasing, and the result depends on
  nothing but the text and the template (the service is not read, and nothing but the
  string is returned).
\<close>

theorem apply_prompt_template_templates:
  "apply_prompt_template svc txt ''raw'' = txt
   \<and> apply_prompt_template svc txt ''visual'' =
       ''A digital art card featuring '' @ txt @ '', with emphasis on visual style and composition''
   \<and> apply_prompt_template svc txt ''content'' =
       ''A digital art card depicting '' @ txt @ '', focused on the subject matter and themes''
   \<and> apply_prompt_template svc txt template = apply_prompt_template svc' txt template"
  by (simp add: apply_prompt_template_def)

subsection \<open>Health check\<close>

text \<open>
  C8: while the model is not loaded, the health check reports status degraded,
  model_loaded false, and null model_name and embedding_dim; once the model is loaded it
  reports status healthy and model_loaded true (with the service's model name and
  dimension).
\<close>

theorem health_check_reports_readiness:
  "(model (embedding_service st) = None \<longrightarrow>
      status (fst (health_check st)) = ''degraded''
      \<and> \<not> model_loaded (fst (health_check st))
      \<and> health_model_name (fst (health_check st)) = None
      \<and> health_embedding_dim (fst (health_check st)) = None)
   \<and> (model (embedding_service st) \<noteq> None \<longrightarrow>
      status (fst (health_check st)) = ''healthy''
      \<and> model_loaded (fst (health_check st))
      \<and> health_model_name (fst (health_check st)) = Some (model_name (embedding_service st))
      \<and> health_embedding_dim (fst (health_check st)) = Some (embedding_dim (embedding_service st)))"
  by (simp add: health_check_def is_loaded_def Let_def)

theorem health_check_reports_readiness_witness:
  "model (embedding_service (initial_state unloaded_service)) = None
   \<and> status (fst (health_check (initial_state unloaded_service))) = ''degraded''
   \<and> \<not> model_loaded (fst (health_check (initial_state unloaded_service)))
   \<and> health_model_name (fst (health_check (initial_state unloaded_service))) = None
   \<and> health_embedding_dim (fst (health_check (initial_state unloaded_service))) = None
   \<and> model (embedding_service (initial_state (load_model axis_model unloaded_service))) \<noteq> None
   \<and> status (fst (health_check (initial_state (load_model axis_model unloaded_service)))) = ''healthy''
   \<and> model_loaded (fst (health_check (initial_state (load_model axis_model unloaded_service))))
   \<and> health_model_name (fst (health_check (initial_state (load_model axis_model unloaded_service))))
       = Some ''ViT-B-32''
   \<and> health_embedding_dim (fst (health_check (initial_state (load_model axis_model unloaded_service))))
       = Some 512"
  using health_check_reports_readiness [of "initial_state unloaded_service"]
        health_check_reports_readiness [of "initial_state (load_model axis_model unloaded_service)"]
  by (simp add: initial_state_def unloaded_service_def load_model_def)

text \<open>
  C10: the health check is read-only: the state after a call (the request counter, the
  last-request time, the service and all its fields) is the state before it.
\<close>

theorem health_check_read_only:
  "snd (health_check st) = st
   \<and> request_counter (snd (health_check st)) = request_counter st
   \<and> last_request_time (snd (health_check st)) = last_request_time st
   \<and> embedding_service (snd (health_check st)) = embedding_service st"
  by (simp add: health_check_def Let_def)

subsection \<open>Normalisation to a unit vector\<close>

text \<open>What a float32 step returns when its exact result is in range.\<close>

lemma f32_underflow_pos: "0 < f32_underflow"
  by (simp add: f32_underflow_def)

lemma flush32_nonneg: "0 \<le> x \<Longrightarrow> 0 \<le> flush32 x \<and> flush32 x \<le> x \<and> x - f32_underflow \<le> flush32 x"
  using f32_underflow_pos by (simp add: flush32_def)

lemma flush32_abs: "\<bar>flush32 x\<bar> \<le> \<bar>x\<bar>"
  by (simp add: flush32_def)

lemma flush32_id: "f32_underflow < x \<Longrightarrow> flush32 x = x"
  using f32_underflow_pos by (auto simp: flush32_def)

lemma flush32_square: "x\<^sup>2 - f32_underflow \<le> (flush32 x)\<^sup>2 \<and> (flush32 x)\<^sup>2 \<le> x\<^sup>2"
proof (cases "\<bar>x\<bar> \<le> f32_underflow")
  case True
  have "f32_underflow \<le> 1"
    by (simp add: f32_underflow_def)
  with True f32_underflow_pos have "\<bar>x\<bar> * \<bar>x\<bar> \<le> f32_underflow * 1"
    by (intro mult_mono) auto
  then have "x\<^sup>2 \<le> f32_underflow"
    by (simp add: power2_eq_square)
  with True show ?thesis
    by (simp add: flush32_def)
next
  case False
  then show ?thesis
    using f32_underflow_pos by (simp add: flush32_def)
qed

lemma fl32_in_range: "\<bar>x\<bar> < f32_overflow \<Longrightarrow> fl32 x = Fin (flush32 x)"
  by (auto simp: fl32_def)

lemma sum32_nonneg:
  assumes "\<forall>s \<in> set ss. 0 \<le> s" and "sum_list ss < f32_overflow"
  shows "\<exists>p. sum32 (map Fin ss) = Fin p \<and> 0 \<le> p \<and> p \<le> sum_list ss
            \<and> sum_list ss - real (length ss) * f32_underflow \<le> p"
  using assms
proof (induction ss)
  case Nil
  then show ?case by simp
next
  case (Cons s ss)
  have nonneg: "0 \<le> sum_list ss"
    using Cons.prems(1) by (intro sum_list_nonneg) simp
  have s0: "0 \<le> s"
    using Cons.prems(1) by simp
  from Cons.prems s0 have "sum_list ss < f32_overflow"
    by simp
  with Cons.IH Cons.prems(1) obtain p where
    p: "sum32 (map Fin ss) = Fin p" "0 \<le> p" "p \<le> sum_list ss"
       "sum_list ss - real (length ss) * f32_underflow \<le> p"
    by auto
  have range: "\<bar>s + p\<bar> < f32_overflow"
    using p(2,3) s0 Cons.prems(2) by simp
  have "sum32 (map Fin (s # ss)) = Fin (flush32 (s + p))"
    using p(1) fl32_in_range [OF range] by simp
  moreover have "0 \<le> flush32 (s + p) \<and> flush32 (s + p) \<le> s + p
      \<and> s + p - f32_underflow \<le> flush32 (s + p)"
    using flush32_nonneg [of "s + p"] s0 p(2) by simp
  ultimately show ?case
    using p(3,4) by (auto simp: algebra_simps)
qed


lemma sum_list_flush_squares:
  "sum_list (map (\<lambda>x. flush32 (x * x)) v) \<le> sum_list (map (\<lambda>x. x * x) v)
   \<and> sum_list (map (\<lambda>x. x * x) v) - real (length v) * f32_underflow
       \<le> sum_list (map (\<lambda>x. flush32 (x * x)) v)"
proof (induction v)
  case Nil
  then show ?case by simp
next
  case (Cons x v)
  have "0 \<le> x * x" by simp
  from flush32_nonneg [OF this] Cons.IH show ?case
    by (auto simp: algebra_simps)
qed

lemma sum32_squares:
  assumes "sum_list (map (\<lambda>x. x * x) v) < f32_overflow"
  shows "\<exists>p. sum32 (map sq32 (map Fin v)) = Fin p \<and> 0 \<le> p
            \<and> p \<le> sum_list (map (\<lambda>x. x * x) v)
            \<and> sum_list (map (\<lambda>x. x * x) v) - 2 * real (length v) * f32_underflow \<le> p"
proof -
  have each: "x * x < f32_overflow" if "x \<in> set v" for x
  proof -
    have "x * x \<le> sum_list (map (\<lambda>x. x * x) v)"
      using that by (intro member_le_sum_list) auto
    with assms show ?thesis by simp
  qed
  have squares: "map sq32 (map Fin v) = map Fin (map (\<lambda>x. flush32 (x * x)) v)"
    using each by (simp add: fl32_in_range)
  have nonneg: "\<forall>s \<in> set (map (\<lambda>x. flush32 (x * x)) v). 0 \<le> s"
    using flush32_nonneg by auto
  have below: "sum_list (map (\<lambda>x. flush32 (x * x)) v) < f32_overflow"
    using sum_list_flush_squares [of v] assms by simp
  from sum32_nonneg [OF nonneg below] obtain p where
    p: "sum32 (map Fin (map (\<lambda>x. flush32 (x * x)) v)) = Fin p" "0 \<le> p"
       "p \<le> sum_list (map (\<lambda>x. flush32 (x * x)) v)"
       "sum_list (map (\<lambda>x. flush32 (x * x)) v) - real (length v) * f32_underflow \<le> p"
    unfolding length_map by blast
  have "sum32 (map sq32 (map Fin v)) = Fin p"
    using p(1) by (simp only: squares)
  moreover have "p \<le> sum_list (map (\<lambda>x. x * x) v)"
    using p(3) sum_list_flush_squares [of v] by linarith
  moreover have "sum_list (map (\<lambda>x. x * x) v) - 2 * real (length v) * f32_underflow \<le> p"
    using p(4) sum_list_flush_squares [of v] by linarith
  ultimately show ?thesis
    using p(2) by blast
qed


text \<open>
  The normalisation in its range. The sum of the squares is below the overflow
  threshold, so every step returns a finite value, off by at most \<open>f32_underflow\<close>;
  the norm is then positive, every quotient has magnitude at most 2, and the sum of the
  squares of the quotients lies between 0.99 and 1.001.
\<close>

lemma sum_list_le_length:
  "\<forall>x \<in> set v. f x \<le> b \<Longrightarrow> sum_list (map f v) \<le> real (length v) * b"
  for b :: real
  by (induction v) (auto simp: algebra_simps)

lemma sum_list_flushed_quotients:
  "sum_list (map (\<lambda>x. flush32 (g x) * flush32 (g x)) v) \<le> sum_list (map (\<lambda>x. g x * g x) v)
   \<and> sum_list (map (\<lambda>x. g x * g x) v) - real (length v) * f32_underflow
       \<le> sum_list (map (\<lambda>x. flush32 (g x) * flush32 (g x)) v)"
proof (induction v)
  case Nil
  then show ?case by simp
next
  case (Cons x v)
  from flush32_square [of "g x"] Cons.IH show ?case
    by (auto simp: algebra_simps power2_eq_square)
qed

lemma sum_list_quotient_squares:
  "sum_list (map (\<lambda>x. (x / n) * (x / n)) v) = sum_list (map (\<lambda>x. x * x) v) / (n * n)"
  for n :: real
  by (induction v) (simp_all add: add_divide_distrib)

lemma sqrt32_in_range:
  assumes "1 / 2 ^ 66 \<le> t" and "t \<le> 2 ^ 74"
  shows "sqrt32 (Fin t) = Fin (sqrt t)"
proof -
  have low: "1 / 2 ^ 33 \<le> sqrt t"
    using assms(1) by (intro real_le_rsqrt) (simp add: power2_eq_square)
  have high: "sqrt t \<le> 2 ^ 37"
    using assms(2) by (intro real_le_lsqrt) simp_all
  have "\<bar>sqrt t\<bar> < f32_overflow"
    using low high by (simp add: f32_overflow_def)
  moreover have "f32_underflow < sqrt t"
    using low by (simp add: f32_underflow_def)
  moreover have "\<not> t < 0"
  proof -
    have "(0::real) \<le> 1 / 2 ^ 66" by simp
    with assms(1) show ?thesis by linarith
  qed
  ultimately show ?thesis
    by (simp add: fl32_in_range flush32_id)
qed


lemma normalized_row_validates:
  fixes v :: "real list"
  assumes len: "length v = 512"
      and comp: "\<forall>x \<in> set v. \<bar>x\<bar> \<le> 2 ^ 32"
      and big: "1 / 2 ^ 64 \<le> sum_list (map (\<lambda>x. x * x) v)"
  shows "\<exists>n. norm32 (map Fin v) = Fin n
            \<and> validate_embedding (map (\<lambda>x. div32 x (Fin n)) v)"
proof -
  define S where "S = sum_list (map (\<lambda>x. x * x) v)"
  have u: "f32_underflow = 1 / 2 ^ 150"
    by (simp add: f32_underflow_def)
  have each: "x * x \<le> 2 ^ 64" if "x \<in> set v" for x
  proof -
    have "\<bar>x\<bar> * \<bar>x\<bar> \<le> 2 ^ 32 * 2 ^ 32"
      using comp that by (intro mult_mono) auto
    then show ?thesis by (simp add: abs_mult_self_eq)
  qed
  have S_high: "S \<le> 2 ^ 73"
    using sum_list_le_length [of v "\<lambda>x. x * x" "2 ^ 64"] each len by (simp add: S_def)
  then have "S < f32_overflow"
    by (simp add: f32_overflow_def)
  from sum32_squares [OF this [unfolded S_def]] obtain p where
    p: "sum32 (map sq32 (map Fin v)) = Fin p" "0 \<le> p" "p \<le> S"
       "S - 2 * real (length v) * f32_underflow \<le> p"
    unfolding S_def by blast
  have p_low: "1 / 2 ^ 65 \<le> p" and half: "S \<le> 2 * p" and close: "1000 * S \<le> 1001 * p"
    using p(4) big len by (simp_all add: S_def u)
  have p_pos: "0 < p"
  proof -
    have "(0::real) < 1 / 2 ^ 65" by simp
    with p_low show ?thesis by linarith
  qed
  have "1 / 2 ^ 66 \<le> p" and "p \<le> 2 ^ 74"
    using p_low p(3) S_high by simp_all
  then have "sqrt32 (Fin p) = Fin (sqrt p)"
    by (rule sqrt32_in_range)
  then have norm: "norm32 (map Fin v) = Fin (sqrt p)"
    by (simp only: norm32_def p(1))
  have n_sq: "sqrt p * sqrt p = p"
    using p(2) by simp
  have n_pos: "0 < sqrt p"
    using p_pos by simp
  have quotient: "div32 x (Fin (sqrt p)) = Fin (flush32 (x / sqrt p))" if "x \<in> set v" for x
  proof -
    have "x * x \<le> S"
      unfolding S_def using that by (intro member_le_sum_list) auto
    with half have "x * x \<le> 2 * p" by linarith
    then have "(x / sqrt p) * (x / sqrt p) \<le> 2"
      using p_pos by (simp add: n_sq divide_le_eq)
    then have "(x / sqrt p)\<^sup>2 \<le> 2\<^sup>2"
      by (simp add: power2_eq_square)
    then have "\<bar>x / sqrt p\<bar> \<le> \<bar>2\<bar>"
      by (simp only: abs_le_square_iff)
    then have "\<bar>x / sqrt p\<bar> \<le> 2"
      by simp
    then have "\<bar>x / sqrt p\<bar> < f32_overflow"
      by (simp add: f32_overflow_def)
    with n_pos show ?thesis
      by (simp add: fl32_in_range)
  qed
  define qs where "qs = map (\<lambda>x. flush32 (x / sqrt p)) v"
  have e: "map (\<lambda>x. div32 x (Fin (sqrt p))) v = map Fin qs"
    using quotient by (simp add: qs_def)
  define T where "T = sum_list (map (\<lambda>q. q * q) qs)"
  have T_eq: "T = sum_list (map (\<lambda>x. flush32 (x / sqrt p) * flush32 (x / sqrt p)) v)"
    by (simp add: T_def qs_def o_def)
  have ratio: "sum_list (map (\<lambda>x. (x / sqrt p) * (x / sqrt p)) v) = S / p"
    unfolding sum_list_quotient_squares n_sq S_def ..
  have "T \<le> S / p \<and> S / p - real (length v) * f32_underflow \<le> T"
    using sum_list_flushed_quotients [of "\<lambda>x. x / sqrt p" v] unfolding ratio T_eq .
  then have T_bounds: "T \<le> S / p" "S / p - real (length v) * f32_underflow \<le> T"
    by blast+
  have ratio_bounds: "1 \<le> S / p" "S / p \<le> 1001 / 1000"
    using p(3) close p_pos by (simp_all add: le_divide_eq divide_le_eq)
  have "T \<le> 1001 / 1000"
    using T_bounds(1) ratio_bounds(2) by linarith
  then have "T < f32_overflow"
    by (simp add: f32_overflow_def)
  from sum32_squares [OF this [unfolded T_def]] obtain t where
    t: "sum32 (map sq32 (map Fin qs)) = Fin t" "0 \<le> t" "t \<le> T"
       "T - 2 * real (length qs) * f32_underflow \<le> t"
    unfolding T_def by blast
  have slack: "real (length v) * f32_underflow \<le> 1 / 1000"
    "2 * real (length qs) * f32_underflow \<le> 1 / 1000"
    using len by (simp_all add: qs_def u)
  have t_bounds: "99 / 100 \<le> t" "t \<le> 1001 / 1000"
    using t(3,4) T_bounds ratio_bounds slack by linarith+
  have "1 / 2 ^ 66 \<le> t" and "t \<le> 2 ^ 74"
    using t_bounds by simp_all
  then have "sqrt32 (Fin t) = Fin (sqrt t)"
    by (rule sqrt32_in_range)
  then have magnitude: "norm32 (map Fin qs) = Fin (sqrt t)"
    by (simp only: norm32_def t(1))
  have "99 / 100 < sqrt t"
    using t_bounds(1) by (intro real_less_rsqrt) (simp add: power2_eq_square)
  moreover have "sqrt t < 101 / 100"
    using t_bounds(2) by (intro real_less_lsqrt) (simp_all add: power2_eq_square)
  ultimately have "\<bar>sqrt t - 1\<bar> < 1 / 100"
    by linarith
  with magnitude have "validate_embedding (map Fin qs)"
    by (simp add: validate_embedding_def)
  with norm e show ?thesis
    by auto
qed

lemma length_components: "length (components v) = 512"
  using components [of v] by simp

lemma length_unit_normalize: "length (unit_normalize v) = 512"
  by (simp add: unit_normalize_def Let_def length_components)

lemma unit_normalize_validates:
  assumes "\<forall>x \<in> set (components v). \<bar>x\<bar> \<le> 2 ^ 32"
      and "1 / 2 ^ 64 \<le> sum_list (map (\<lambda>x. x * x) (components v))"
  shows "validate_embedding (unit_normalize v)"
  using normalized_row_validates [OF length_components assms]
  by (auto simp: unit_normalize_def Let_def)

text \<open>The float32 steps on the concrete rows.\<close>

lemma sum32_replicate:
  "sum32 (replicate n (Fin 0)) = Fin 0"
  "sum32 (replicate (Suc n) PInf) = PInf"
  "sum32 (replicate (Suc n) NaN) = NaN"
proof -
  show "sum32 (replicate n (Fin 0)) = Fin 0"
    by (induction n) (simp_all add: fl32_def flush32_def f32_overflow_def)
  show "sum32 (replicate (Suc n) PInf) = PInf"
    by (induction n) simp_all
  show "sum32 (replicate (Suc n) NaN) = NaN"
    by simp
qed

lemma sum32_replicate_512:
  "sum32 (replicate 512 PInf) = PInf" "sum32 (replicate 512 NaN) = NaN"
  using sum32_replicate(2) [of 511] sum32_replicate(3) [of 511] by simp_all

lemma fl32_values:
  "fl32 0 = Fin 0" "fl32 5 = Fin 5" "fl32 9 = Fin 9" "fl32 16 = Fin 16" "fl32 25 = Fin 25"
  "fl32 (3 / 5) = Fin (3 / 5)" "fl32 (4 / 5) = Fin (4 / 5)" "fl32 1 = Fin 1"
  by (simp_all add: fl32_def flush32_def f32_overflow_def f32_underflow_def)

lemma sq32_out_of_range:
  "sq32 (Fin (10 ^ 20)) = PInf" "sq32 (Fin (1 / 10 ^ 30)) = Fin 0"
  by (simp_all add: fl32_def flush32_def f32_overflow_def f32_underflow_def)

lemma sqrt_25: "sqrt 25 = 5"
  by (rule real_sqrt_unique) simp_all

lemma components_rows:
  "components slope_row = 3 # 4 # replicate 510 0"
  "components zero_row = replicate 512 0"
  "components huge_row = replicate 512 (10 ^ 20)"
  "components tiny_row = replicate 512 (1 / 10 ^ 30)"
  "components axis_row = 1 # replicate 511 0"
  by (simp_all add: slope_row_def zero_row_def huge_row_def tiny_row_def axis_row_def
        Feature_row_inverse)

lemma unit_normalize_slope_row:
  "unit_normalize slope_row = Fin (3 / 5) # Fin (4 / 5) # replicate 510 (Fin 0)"
  by (simp add: unit_normalize_def components_rows norm32_def sum32_replicate fl32_values
        sqrt_25 Let_def)

lemma unit_normalize_zero_row: "unit_normalize zero_row = replicate 512 NaN"
  by (simp add: unit_normalize_def components_rows norm32_def sum32_replicate fl32_values Let_def)

lemma unit_normalize_huge_row: "unit_normalize huge_row = replicate 512 (Fin 0)"
proof -
  have "norm32 (map Fin (replicate 512 (10 ^ 20))) = PInf"
    unfolding norm32_def map_replicate sq32_out_of_range sum32_replicate_512 by simp
  then show ?thesis
    unfolding unit_normalize_def components_rows Let_def by simp
qed

lemma unit_normalize_tiny_row: "unit_normalize tiny_row = replicate 512 PInf"
proof -
  have "norm32 (map Fin (replicate 512 (1 / 10 ^ 30))) = Fin 0"
    unfolding norm32_def map_replicate sq32_out_of_range sum32_replicate
    by (simp add: fl32_values)
  then show ?thesis
    unfolding unit_normalize_def components_rows Let_def by simp
qed

lemma not_validated:
  "\<not> validate_embedding (replicate 512 NaN)"
  "\<not> validate_embedding (replicate 512 (Fin 0))"
  "\<not> validate_embedding (replicate 512 PInf)"
  by (simp_all add: validate_embedding_def norm32_def sum32_replicate sum32_replicate_512 fl32_values)

text \<open>
  C1, amended: for every embed call on a loaded model whose feature row has components
  of magnitude at most \<open>2^32\<close> and a sum of squares of at least \<open>2^-64\<close> (a Euclidean
  norm of at least \<open>2^-32\<close>), so that the float32 norm neither overflows nor
  underflows to zero, the call succeeds and the returned vector has exactly 512 elements
  and a Euclidean norm within 0.01 of 1 (\<open>validate_embedding\<close> holds of it); this holds
  for \<open>encode_text\<close> and \<open>encode_image\<close>, and for the vectors the /embed/text and
  /embed/image handlers return.
\<close>

theorem encode_returns_unit_vector:
  assumes "model svc = Some m"
      and "\<forall>x \<in> set (components v). \<bar>x\<bar> \<le> 2 ^ 32"
      and "1 / 2 ^ 64 \<le> sum_list (map (\<lambda>x. x * x) (components v))"
  shows "(text_features m query = Inr v \<longrightarrow>
            (\<exists>e. fst (encode_text svc query) = Inr e
                 \<and> length e = 512 \<and> validate_embedding e))
         \<and> (image_features m image_bytes = Inr v \<longrightarrow>
            (\<exists>e. fst (encode_image svc image_bytes) = Inr e
                 \<and> length e = 512 \<and> validate_embedding e))
         \<and> (embedding_service st = svc
              \<and> text_features m (Some (apply_prompt_template svc (req_text request)
                                        (req_prompt_template request))) = Inr v \<longrightarrow>
            (\<exists>r. fst (embed_text clk st request) = Inr r
                 \<and> length (text_embedding r) = 512 \<and> validate_embedding (text_embedding r)))
         \<and> (embedding_service st = svc \<and> type_allowed (content_type upload)
              \<and> read_result upload = Inr image_bytes \<and> image_features m image_bytes = Inr v \<longrightarrow>
            (\<exists>r. fst (embed_image clk st upload) = Inr r
                 \<and> length (image_embedding r) = 512 \<and> validate_embedding (image_embedding r)))"
proof -
  have unit: "length (unit_normalize v) = 512" "validate_embedding (unit_normalize v)"
    using assms(2,3) by (simp_all add: length_unit_normalize unit_normalize_validates)
  have loaded: "is_loaded svc" "the (model svc) = m"
    using assms(1) by (simp_all add: is_loaded_def)
  have enc_t: "text_features m t = Inr v \<Longrightarrow> encode_text svc t = (Inr (unit_normalize v), [EncodeTextCall t])" for t
    using loaded by (simp add: encode_text_def)
  have enc_i: "image_features m b = Inr v \<Longrightarrow> encode_image svc b = (Inr (unit_normalize v), [EncodeImageCall b])" for b
    using loaded by (simp add: encode_image_def)
  show ?thesis
  proof (intro conjI impI)
    assume "text_features m query = Inr v"
    then show "\<exists>e. fst (encode_text svc query) = Inr e \<and> length e = 512 \<and> validate_embedding e"
      using enc_t unit by simp
  next
    assume "image_features m image_bytes = Inr v"
    then show "\<exists>e. fst (encode_image svc image_bytes) = Inr e \<and> length e = 512 \<and> validate_embedding e"
      using enc_i unit by simp
  next
    assume "embedding_service st = svc
              \<and> text_features m (Some (apply_prompt_template svc (req_text request)
                                        (req_prompt_template request))) = Inr v"
    then show "\<exists>r. fst (embed_text clk st request) = Inr r
                 \<and> length (text_embedding r) = 512 \<and> validate_embedding (text_embedding r)"
      using enc_t unit by (simp add: embed_text_def Let_def new_TextEmbeddingResponse_def)
  next
    assume "embedding_service st = svc \<and> type_allowed (content_type upload)
              \<and> read_result upload = Inr image_bytes \<and> image_features m image_bytes = Inr v"
    then show "\<exists>r. fst (embed_image clk st upload) = Inr r
                 \<and> length (image_embedding r) = 512 \<and> validate_embedding (image_embedding r)"
      using enc_i unit by (simp add: embed_image_def Let_def new_ImageEmbeddingResponse_def)
  qed
qed

theorem encode_returns_unit_vector_witness:
  "model (load_model (constant_model slope_row) unloaded_service) = Some (constant_model slope_row)
   \<and> components slope_row = 3 # 4 # replicate 510 0
   \<and> \<bar>3 :: real\<bar> \<le> 2 ^ 32 \<and> \<bar>4 :: real\<bar> \<le> 2 ^ 32 \<and> \<bar>0 :: real\<bar> \<le> 2 ^ 32
   \<and> sum_list (map (\<lambda>x. x * x) (components slope_row)) = 25 \<and> 1 / 2 ^ 64 \<le> (25 :: real)
   \<and> text_features (constant_model slope_row) (Some ''pepe'') = Inr slope_row
   \<and> fst (encode_text (load_model (constant_model slope_row) unloaded_service) (Some ''pepe''))
       = Inr (Fin (3 / 5) # Fin (4 / 5) # replicate 510 (Fin 0))
   \<and> length (Fin (3 / 5) # Fin (4 / 5) # replicate 510 (Fin 0)) = 512
   \<and> validate_embedding (Fin (3 / 5) # Fin (4 / 5) # replicate 510 (Fin 0))
   \<and> image_features (constant_model slope_row) png_bytes = Inr slope_row
   \<and> fst (encode_image (load_model (constant_model slope_row) unloaded_service) png_bytes)
       = Inr (Fin (3 / 5) # Fin (4 / 5) # replicate 510 (Fin 0))
   \<and> (\<exists>r. fst (embed_text noon (initial_state (load_model (constant_model slope_row) unloaded_service))
                 pepe_request) = Inr r
          \<and> length (text_embedding r) = 512 \<and> validate_embedding (text_embedding r))
   \<and> type_allowed (content_type png_upload) \<and> read_result png_upload = Inr png_bytes
   \<and> (\<exists>r. fst (embed_image noon (initial_state (load_model (constant_model slope_row) unloaded_service))
                 png_upload) = Inr r
          \<and> length (image_embedding r) = 512 \<and> validate_embedding (image_embedding r))"
proof -
  have h1: "model (load_model (constant_model slope_row) unloaded_service) = Some (constant_model slope_row)"
    by (simp add: load_model_def)
  have h2: "\<forall>x \<in> set (components slope_row). \<bar>x\<bar> \<le> 2 ^ 32"
    by (simp add: components_rows)
  have sq: "sum_list (map (\<lambda>x. x * x) (components slope_row)) = 25"
    by (simp add: components_rows sum_list_replicate)
  have h3: "1 / 2 ^ 64 \<le> sum_list (map (\<lambda>x. x * x) (components slope_row))"
    by (simp add: sq)
  have enc:
    "fst (encode_text (load_model (constant_model slope_row) unloaded_service) (Some ''pepe''))
       = Inr (Fin (3 / 5) # Fin (4 / 5) # replicate 510 (Fin 0))"
    "fst (encode_image (load_model (constant_model slope_row) unloaded_service) png_bytes)
       = Inr (Fin (3 / 5) # Fin (4 / 5) # replicate 510 (Fin 0))"
    by (simp_all add: encode_text_def encode_image_def is_loaded_def load_model_def
          constant_model_def unit_normalize_slope_row)
  have feats: "text_features (constant_model slope_row) t = Inr slope_row"
    "image_features (constant_model slope_row) b = Inr slope_row" for t b
    by (simp_all add: constant_model_def)
  have upload: "type_allowed (content_type png_upload)" "read_result png_upload = Inr png_bytes"
    by (simp_all add: png_upload_def type_allowed_def allowed_types_def)
  have st: "embedding_service (initial_state (load_model (constant_model slope_row) unloaded_service))
      = load_model (constant_model slope_row) unloaded_service"
    by (simp add: initial_state_def)
  show ?thesis
    using h1 sq enc feats upload st
      encode_returns_unit_vector [OF h1 h2 h3, where query = "Some ''pepe''" and image_bytes = png_bytes
        and st = "initial_state (load_model (constant_model slope_row) unloaded_service)"
        and request = pepe_request and upload = png_upload and clk = noon]
    by (simp add: components_rows)
qed

text \<open>
  C1 as stated fails: the encode functions divide the row by its float32 norm and check
  nothing. On the zero row the division is 0/0 and the call returns 512 nan values; on a
  row of components \<open>10^20\<close> the squares overflow, the norm is inf and the call returns
  512 zeros; on a row of components \<open>10^-30\<close> the squares underflow, the norm is 0 and
  the call returns 512 inf values. Each call succeeds, and \<open>validate_embedding\<close> is
  false of what it returns.
\<close>

theorem encode_not_always_unit_vector:
  "fst (encode_text (load_model (constant_model zero_row) unloaded_service) (Some ''pepe''))
     = Inr (replicate 512 NaN)
   \<and> \<not> validate_embedding (replicate 512 NaN)
   \<and> fst (encode_text (load_model (constant_model huge_row) unloaded_service) (Some ''pepe''))
     = Inr (replicate 512 (Fin 0))
   \<and> \<not> validate_embedding (replicate 512 (Fin 0))
   \<and> fst (encode_image (load_model (constant_model tiny_row) unloaded_service) png_bytes)
     = Inr (replicate 512 PInf)
   \<and> \<not> validate_embedding (replicate 512 PInf)"
  by (simp add: encode_text_def encode_image_def is_loaded_def load_model_def constant_model_def
        unit_normalize_zero_row unit_normalize_huge_row unit_normalize_tiny_row not_validated)

subsection \<open>The batch loop\<close>

text \<open>
  Invariants of the loop, for any accessor: every entry appended is either a success
  with an embedding or a failure with an error; the counters count them; and when the
  request type is text or image, every item that does not leave the loop appends one
  entry.
\<close>

lemma try_item_success_shape:
  "try_item getf fs svc ty item = (Inr (Some entry), calls) \<Longrightarrow>
     entry_success entry \<and> entry_embedding entry \<noteq> None \<and> entry_error entry = None"
  by (auto simp: try_item_def split: if_splits sum.splits option.splits prod.splits)

lemma try_item_typed:
  "ty = ''text'' \<or> ty = ''image'' \<Longrightarrow> try_item getf fs svc ty item \<noteq> (Inr None, calls)"
  by (auto simp: try_item_def split: if_splits sum.splits option.splits prod.splits)

lemma batch_loop_invariant:
  assumes "batch_loop getf fs svc ty items acc = (r, acc')"
      and "I (acc_embeddings acc) (acc_successful acc) (acc_failed acc)"
      and ok: "\<And>es s f e. I es s f \<Longrightarrow> entry_success e \<Longrightarrow> entry_embedding e \<noteq> None \<Longrightarrow>
                 entry_error e = None \<Longrightarrow> I (es @ [e]) (s + 1) f"
      and bad: "\<And>es s f i m. I es s f \<Longrightarrow>
                 I (es @ [\<lparr>entry_id = i, entry_embedding = None,
                            entry_success = False, entry_error = Some m\<rparr>]) s (f + 1)"
  shows "I (acc_embeddings acc') (acc_successful acc') (acc_failed acc')"
  using assms(1,2)
proof (induction items arbitrary: acc)
  case Nil
  then show ?case by simp
next
  case (Cons item rest)
  obtain res calls where t: "try_item getf fs svc ty item = (res, calls)"
    by (cases "try_item getf fs svc ty item")
  show ?case
  proof (cases res)
    case (Inl err)
    show ?thesis
    proof (cases "getf item ''id'' None")
      case (Inl err')
      with Cons.prems t \<open>res = Inl err\<close> show ?thesis by auto
    next
      case (Inr i)
      with Cons.prems(1) t \<open>res = Inl err\<close>
      have step: "batch_loop getf fs svc ty rest
              (acc\<lparr>acc_embeddings := acc_embeddings acc @
                       [\<lparr>entry_id = i, entry_embedding = None,
                         entry_success = False, entry_error = Some (str_of err)\<rparr>],
                   acc_failed := acc_failed acc + 1,
                   acc_log := acc_log acc @ calls\<rparr>) = (r, acc')"
        by simp
      show ?thesis
        using bad [OF Cons.prems(2)] by (intro Cons.IH [OF step]) simp
    qed
  next
    case (Inr produced)
    show ?thesis
    proof (cases produced)
      case None
      with Cons.prems(1) t \<open>res = Inr produced\<close>
      have step: "batch_loop getf fs svc ty rest (acc\<lparr>acc_log := acc_log acc @ calls\<rparr>) = (r, acc')"
        by simp
      show ?thesis
        using Cons.prems(2) by (intro Cons.IH [OF step]) simp
    next
      case (Some entry)
      with Cons.prems(1) t \<open>res = Inr produced\<close>
      have step: "batch_loop getf fs svc ty rest
              (acc\<lparr>acc_embeddings := acc_embeddings acc @ [entry],
                   acc_successful := acc_successful acc + 1,
                   acc_log := acc_log acc @ calls\<rparr>) = (r, acc')"
        by simp
      have "entry_success entry \<and> entry_embedding entry \<noteq> None \<and> entry_error entry = None"
        using t \<open>res = Inr produced\<close> Some try_item_success_shape [of getf fs svc ty item entry calls]
        by simp
      then show ?thesis
        using ok [OF Cons.prems(2)] by (intro Cons.IH [OF step]) simp
    qed
  qed
qed

lemma batch_loop_entries:
  assumes "batch_loop getf fs svc ty items acc = (r, acc')"
      and "list_all entry_exclusive (acc_embeddings acc)"
  shows "list_all entry_exclusive (acc_embeddings acc')"
  using assms
  by (rule batch_loop_invariant [where I = "\<lambda>es s f. list_all entry_exclusive es"])
     (simp_all add: entry_exclusive_def)

lemma batch_loop_counts:
  assumes "batch_loop getf fs svc ty items acc = (r, acc')" and "counts_agree acc"
  shows "counts_agree acc'"
proof -
  have "acc_successful acc' = int (length (filter entry_success (acc_embeddings acc')))
        \<and> acc_failed acc' = int (length (filter (\<lambda>e. \<not> entry_success e) (acc_embeddings acc')))"
    by (rule batch_loop_invariant [OF assms(1),
          where I = "\<lambda>es s f. s = int (length (filter entry_success es))
                       \<and> f = int (length (filter (\<lambda>e. \<not> entry_success e) es))"])
       (insert assms(2), simp_all add: counts_agree_def)
  then show ?thesis
    by (simp add: counts_agree_def)
qed

lemma batch_loop_length:
  "batch_loop getf fs svc ty items acc = (None, acc') \<Longrightarrow> ty = ''text'' \<or> ty = ''image'' \<Longrightarrow>
   length (acc_embeddings acc') = length (acc_embeddings acc) + length items"
proof (induction items arbitrary: acc)
  case Nil
  then show ?case by simp
next
  case (Cons item rest)
  obtain res calls where t: "try_item getf fs svc ty item = (res, calls)"
    by (cases "try_item getf fs svc ty item")
  have not_skipped: "res \<noteq> Inr None"
    using t try_item_typed [OF Cons.prems(2), of getf fs svc item calls] by auto
  show ?case
  proof (cases res)
    case (Inl err)
    show ?thesis
    proof (cases "getf item ''id'' None")
      case (Inl err')
      with Cons.prems t \<open>res = Inl err\<close> show ?thesis by auto
    next
      case (Inr i)
      with Cons.prems(1) t \<open>res = Inl err\<close>
      have "batch_loop getf fs svc ty rest
              (acc\<lparr>acc_embeddings := acc_embeddings acc @
                       [\<lparr>entry_id = i, entry_embedding = None,
                         entry_success = False, entry_error = Some (str_of err)\<rparr>],
                   acc_failed := acc_failed acc + 1,
                   acc_log := acc_log acc @ calls\<rparr>) = (None, acc')"
        by simp
      from Cons.IH [OF this Cons.prems(2)] show ?thesis by simp
    qed
  next
    case (Inr produced)
    with not_skipped obtain entry where "produced = Some entry" by (cases produced) auto
    with Cons.prems(1) t \<open>res = Inr produced\<close>
    have "batch_loop getf fs svc ty rest
              (acc\<lparr>acc_embeddings := acc_embeddings acc @ [entry],
                   acc_successful := acc_successful acc + 1,
                   acc_log := acc_log acc @ calls\<rparr>) = (None, acc')"
      by simp
    from Cons.IH [OF this Cons.prems(2)] show ?thesis by simp
  qed
qed

lemma batch_loop_completes:
  "\<forall>item k d. \<exists>v. getf item k d = Inr v \<Longrightarrow> \<exists>acc'. batch_loop getf fs svc ty items acc = (None, acc')"
proof (induction items arbitrary: acc)
  case Nil
  then show ?case by simp
next
  case (Cons item rest)
  obtain i where i: "getf item ''id'' None = Inr i"
    using Cons.prems by blast
  obtain res calls where t: "try_item getf fs svc ty item = (res, calls)"
    by (cases "try_item getf fs svc ty item")
  show ?case
    using Cons.IH [OF Cons.prems] i t
    by (cases res) (auto split: option.splits)
qed

lemma embed_batch_Inr:
  assumes "fst (embed_batch getf fs clk st request) = Inr resp"
  obtains acc where
    "batch_loop getf fs (embedding_service st) (batch_type request) (batch_items request)
       \<lparr>acc_embeddings = [], acc_successful = 0, acc_failed = 0, acc_log = []\<rparr> = (None, acc)"
    "embeddings resp = acc_embeddings acc" "successful resp = acc_successful acc"
    "failed resp = acc_failed acc" "total resp = int (length (batch_items request))"
    "request_counter (snd (embed_batch getf fs clk st request)) = request_counter st + acc_successful acc"
    "last_request_time (snd (embed_batch getf fs clk st request)) = Some (now clk)"
proof -
  obtain r acc where l: "batch_loop getf fs (embedding_service st) (batch_type request) (batch_items request)
       \<lparr>acc_embeddings = [], acc_successful = 0, acc_failed = 0, acc_log = []\<rparr> = (r, acc)"
    by (cases "batch_loop getf fs (embedding_service st) (batch_type request) (batch_items request)
       \<lparr>acc_embeddings = [], acc_successful = 0, acc_failed = 0, acc_log = []\<rparr>")
  with assms have "r = None"
    by (cases r) (simp_all add: embed_batch_def)
  with l assms that show thesis
    by (auto simp: embed_batch_def)
qed

text \<open>
  With an accessor that does not raise, the loop runs to its end, and the response has
  one entry per item and counts that add up to the number of items: a failing item is
  recorded and the loop goes on.
\<close>

lemma embed_batch_isolates_failures:
  assumes "\<forall>item k d. \<exists>v. getf item k d = Inr v"
      and "batch_type request = ''text'' \<or> batch_type request = ''image''"
  shows "\<exists>resp. fst (embed_batch getf fs clk st request) = Inr resp
           \<and> length (embeddings resp) = length (batch_items request)
           \<and> successful resp + failed resp = int (length (batch_items request))
           \<and> total resp = int (length (batch_items request))"
proof -
  obtain acc where
    l: "batch_loop getf fs (embedding_service st) (batch_type request) (batch_items request)
       \<lparr>acc_embeddings = [], acc_successful = 0, acc_failed = 0, acc_log = []\<rparr> = (None, acc)"
    using batch_loop_completes [OF assms(1)] by blast
  have len: "length (acc_embeddings acc) = length (batch_items request)"
    using batch_loop_length [OF l assms(2)] by simp
  have "counts_agree acc"
    by (rule batch_loop_counts [OF l]) (simp add: counts_agree_def)
  then have "acc_successful acc + acc_failed acc = int (length (acc_embeddings acc))"
    using sum_length_filter_compl [of entry_success "acc_embeddings acc"]
    by (simp add: counts_agree_def)
  with l len show ?thesis
    by (simp add: embed_batch_def)
qed

text \<open>
  With the accessor the service runs with, the first item already leaves the loop: the
  \<open>try\<close> body raises at \<open>item.get\<close>, and so does the handler that would record
  the failure.
\<close>

lemma try_item_pydantic:
  "ty = ''text'' \<or> ty = ''image'' \<Longrightarrow>
   try_item pydantic_get fs svc ty item = (Inl (AttributeError no_attribute_get), [])"
  by (auto simp: try_item_def pydantic_get_def)

lemma batch_loop_pydantic:
  "ty = ''text'' \<or> ty = ''image'' \<Longrightarrow>
   batch_loop pydantic_get fs svc ty (item # rest) acc = (Some (AttributeError no_attribute_get), acc)"
  by (simp add: try_item_pydantic) (simp add: pydantic_get_def)

lemma embed_batch_pydantic_nonempty:
  "batch_type request = ''text'' \<or> batch_type request = ''image'' \<Longrightarrow> batch_items request \<noteq> [] \<Longrightarrow>
   embed_batch pydantic_get fs clk st request =
     (Inl (HTTPException 500 (''Batch embedding failed: '' @ no_attribute_get)), st)"
  by (cases "batch_items request") (simp_all add: embed_batch_def batch_loop_pydantic del: batch_loop.simps)

text \<open>
  C2 (the code departs from it): a batch request of one text item does not get one
  entry back. The item's lookup raises AttributeError, the handler recording the failure
  raises it again, and the request as a whole is answered with HTTP 500, with no entry
  and no count, and the state as it was.
\<close>

theorem embed_batch_one_item_fails:
  "embed_batch pydantic_get fs clk st one_text_batch =
     (Inl (HTTPException 500 (''Batch embedding failed: '' @ no_attribute_get)), st)
   \<and> length (batch_items one_text_batch) = 1"
  by (simp add: embed_batch_pydantic_nonempty one_text_batch_def)

text \<open>
  C6: every entry of a batch response has exactly one of embedding and error: an entry
  with success true has an embedding and no error, an entry with success false has no
  embedding and an error message.
\<close>

theorem batch_entries_exclusive:
  assumes "fst (embed_batch getf fs clk st request) = Inr resp"
      and "entry \<in> set (embeddings resp)"
  shows "(entry_success entry \<longrightarrow> entry_embedding entry \<noteq> None \<and> entry_error entry = None)
       \<and> (\<not> entry_success entry \<longrightarrow> entry_embedding entry = None \<and> entry_error entry \<noteq> None)
       \<and> (entry_embedding entry = None) \<noteq> (entry_error entry = None)"
proof -
  from assms(1) obtain acc where
    l: "batch_loop getf fs (embedding_service st) (batch_type request) (batch_items request)
       \<lparr>acc_embeddings = [], acc_successful = 0, acc_failed = 0, acc_log = []\<rparr> = (None, acc)"
    and e: "embeddings resp = acc_embeddings acc"
    by (rule embed_batch_Inr)
  have "list_all entry_exclusive (acc_embeddings acc)"
    by (rule batch_loop_entries [OF l]) simp
  with assms(2) e have "entry_exclusive entry"
    by (simp add: list_all_iff)
  then show ?thesis
    by (auto simp: entry_exclusive_def split: if_splits)
qed

lemma image_batch_runs:
  "embed_batch dict_get one_file noon (initial_state (load_model axis_model unloaded_service)) image_batch
     = (Inr image_batch_response,
        \<lparr>embedding_service = load_model axis_model unloaded_service, request_counter = 1,
         last_request_time = Some 1700000000,
         io_log = [FileOpen ''cards/pepe.png'', EncodeImageCall png_bytes]\<rparr>)"
  by (simp add: embed_batch_def image_batch_def try_item_def dict_get_def one_file_def
        encode_image_def is_loaded_def load_model_def unloaded_service_def axis_model_def
        png_bytes_def initial_state_def noon_def image_batch_response_def)

theorem batch_entries_exclusive_witness:
  "fst (embed_batch dict_get one_file noon (initial_state (load_model axis_model unloaded_service))
          image_batch) = Inr image_batch_response
   \<and> embeddings image_batch_response ! 0 \<in> set (embeddings image_batch_response)
   \<and> entry_success (embeddings image_batch_response ! 0)
   \<and> entry_embedding (embeddings image_batch_response ! 0) \<noteq> None
   \<and> entry_error (embeddings image_batch_response ! 0) = None
   \<and> embeddings image_batch_response ! 1 \<in> set (embeddings image_batch_response)
   \<and> \<not> entry_success (embeddings image_batch_response ! 1)
   \<and> entry_embedding (embeddings image_batch_response ! 1) = None
   \<and> entry_error (embeddings image_batch_response ! 1) \<noteq> None"
proof -
  have run: "fst (embed_batch dict_get one_file noon (initial_state (load_model axis_model unloaded_service))
          image_batch) = Inr image_batch_response"
    by (simp add: image_batch_runs)
  have m0: "embeddings image_batch_response ! 0 \<in> set (embeddings image_batch_response)"
    and m1: "embeddings image_batch_response ! 1 \<in> set (embeddings image_batch_response)"
    by (simp_all add: image_batch_response_def)
  have s0: "entry_success (embeddings image_batch_response ! 0)"
    and s1: "\<not> entry_success (embeddings image_batch_response ! 1)"
    by (simp_all add: image_batch_response_def)
  show ?thesis
    using run m0 m1 s0 s1 batch_entries_exclusive [OF run m0] batch_entries_exclusive [OF run m1]
    by simp
qed

subsection \<open>The content-type guard of /embed/image\<close>

lemma type_allowed_iff:
  "type_allowed ct \<longleftrightarrow>
     ct \<in> {Some ''image/png'', Some ''image/jpeg'', Some ''image/jpg'', Some ''image/gif''}"
  by (cases ct) (auto simp: type_allowed_def allowed_types_def)

text \<open>
  C4: an upload whose content type is not image/png, image/jpeg, image/jpg or image/gif
  (a missing content type included) is answered with HTTP 400, with the state and the
  log of outside calls unchanged: the file is not read and the encoder is not called,
  and the answer does not depend on what reading the file would give.
\<close>

theorem unsupported_type_rejected_first:
  assumes "content_type upload \<notin>
             {Some ''image/png'', Some ''image/jpeg'', Some ''image/jpg'', Some ''image/gif''}"
  shows "embed_image clk st upload =
           (Inl (HTTPException 400 (''Unsupported file type: '' @ show_content_type (content_type upload)
                                     @ ''. Allowed: PNG, JPG, GIF'')), st)
         \<and> io_log (snd (embed_image clk st upload)) = io_log st
         \<and> embed_image clk st (upload\<lparr>read_result := other\<rparr>) = embed_image clk st upload"
  using assms by (simp add: embed_image_def type_allowed_iff)

theorem unsupported_type_rejected_first_witness:
  "content_type pdf_upload \<notin>
     {Some ''image/png'', Some ''image/jpeg'', Some ''image/jpg'', Some ''image/gif''}
   \<and> embed_image noon (initial_state (load_model axis_model unloaded_service)) pdf_upload =
       (Inl (HTTPException 400 ''Unsupported file type: application/pdf. Allowed: PNG, JPG, GIF''),
        initial_state (load_model axis_model unloaded_service))
   \<and> io_log (snd (embed_image noon (initial_state (load_model axis_model unloaded_service)) pdf_upload)) = []"
proof -
  have h: "content_type pdf_upload \<notin>
     {Some ''image/png'', Some ''image/jpeg'', Some ''image/jpg'', Some ''image/gif''}"
    by (simp add: pdf_upload_def)
  show ?thesis
    using h unsupported_type_rejected_first [OF h, of noon
        "initial_state (load_model axis_model unloaded_service)"]
    by (simp add: pdf_upload_def show_content_type_def initial_state_def)
qed

subsection \<open>Service not ready\<close>

text \<open>
  C5: while the model is not loaded, \<open>encode_text\<close>, \<open>encode_image\<close> and
  \<open>encode_batch_text\<close> raise RuntimeError "Model not loaded" without a call to the
  encoder, and /embed/text and /embed/image (for an upload that passes the guard and
  can be read) answer HTTP 500 with that message in the detail, and no embedding.
\<close>

theorem not_loaded_fails_fast:
  assumes "model svc = None"
  shows "encode_text svc query = (Inl (RuntimeError ''Model not loaded''), [])
       \<and> encode_image svc image_bytes = (Inl (RuntimeError ''Model not loaded''), [])
       \<and> encode_batch_text svc texts = (Inl (RuntimeError ''Model not loaded''), [])
       \<and> (embedding_service st = svc \<longrightarrow>
            embed_text clk st request =
              (Inl (HTTPException 500 ''Text embedding generation failed: Model not loaded''), st))
       \<and> (embedding_service st = svc \<and> type_allowed (content_type upload)
            \<and> read_result upload = Inr image_bytes \<longrightarrow>
            embed_image clk st upload =
              (Inl (HTTPException 500 ''Image embedding generation failed: Model not loaded''),
               st\<lparr>io_log := io_log st @ [UploadRead]\<rparr>))"
  using assms
  by (simp add: encode_text_def encode_image_def encode_batch_text_def is_loaded_def
        embed_text_def embed_image_def Let_def)

theorem not_loaded_fails_fast_witness:
  "model unloaded_service = None
   \<and> encode_text unloaded_service (Some ''pepe'') = (Inl (RuntimeError ''Model not loaded''), [])
   \<and> encode_image unloaded_service png_bytes = (Inl (RuntimeError ''Model not loaded''), [])
   \<and> encode_batch_text unloaded_service [''pepe'', ''wojak''] = (Inl (RuntimeError ''Model not loaded''), [])
   \<and> embedding_service (initial_state unloaded_service) = unloaded_service
   \<and> embed_text noon (initial_state unloaded_service) pepe_request =
       (Inl (HTTPException 500 ''Text embedding generation failed: Model not loaded''),
        initial_state unloaded_service)
   \<and> type_allowed (content_type png_upload) \<and> read_result png_upload = Inr png_bytes
   \<and> embed_image noon (initial_state unloaded_service) png_upload =
       (Inl (HTTPException 500 ''Image embedding generation failed: Model not loaded''),
        (initial_state unloaded_service)\<lparr>io_log := [UploadRead]\<rparr>)"
proof -
  have h: "model unloaded_service = None"
    by (simp add: unloaded_service_def)
  show ?thesis
    using h not_loaded_fails_fast [OF h, where query = "Some ''pepe''" and image_bytes = png_bytes
        and texts = "[''pepe'', ''wojak'']" and st = "initial_state unloaded_service"
        and clk = noon and request = pepe_request and upload = png_upload]
    by (simp add: initial_state_def png_upload_def type_allowed_iff)
qed

subsection \<open>The request counter and the last-request time\<close>

text \<open>The ways through the two single-item handlers, and the handlers on concrete requests.\<close>

lemma embed_text_cases:
  "(\<exists>e calls. encode_text (embedding_service st)
        (Some (apply_prompt_template (embedding_service st) (req_text request) (req_prompt_template request)))
          = (Inl e, calls)
      \<and> embed_text clk st request =
          (Inl (HTTPException 500 (''Text embedding generation failed: '' @ str_of e)),
           st\<lparr>io_log := io_log st @ calls\<rparr>))
   \<or> (\<exists>emb calls res. encode_text (embedding_service st)
        (Some (apply_prompt_template (embedding_service st) (req_text request) (req_prompt_template request)))
          = (Inr emb, calls)
      \<and> embed_text clk st request =
          (res, st\<lparr>request_counter := request_counter st + 1,
                   last_request_time := Some (now clk),
                   io_log := io_log st @ calls\<rparr>)
      \<and> (length emb = 512 \<longrightarrow> (\<exists>r. res = Inr r))
      \<and> (length emb \<noteq> 512 \<longrightarrow> (\<exists>d. res = Inl (HTTPException 500 d))))"
  by (auto simp: embed_text_def Let_def new_TextEmbeddingResponse_def split: prod.splits sum.splits)

lemma embed_image_cases:
  "(\<not> type_allowed (content_type upload)
      \<and> (\<exists>d. embed_image clk st upload = (Inl (HTTPException 400 d), st)))
   \<or> (type_allowed (content_type upload)
      \<and> (\<exists>e. read_result upload = Inl e
         \<and> embed_image clk st upload =
             (Inl (HTTPException 500 (''Image embedding generation failed: '' @ str_of e)),
              st\<lparr>io_log := io_log st @ [UploadRead]\<rparr>)))
   \<or> (type_allowed (content_type upload)
      \<and> (\<exists>b e calls. read_result upload = Inr b
         \<and> encode_image (embedding_service st) b = (Inl e, calls)
         \<and> embed_image clk st upload =
             (Inl (HTTPException 500 (''Image embedding generation failed: '' @ str_of e)),
              st\<lparr>io_log := io_log st @ UploadRead # calls\<rparr>)))
   \<or> (type_allowed (content_type upload)
      \<and> (\<exists>b emb calls res. read_result upload = Inr b
         \<and> encode_image (embedding_service st) b = (Inr emb, calls)
         \<and> embed_image clk st upload =
             (res, st\<lparr>request_counter := request_counter st + 1,
                      last_request_time := Some (now clk),
                      io_log := io_log st @ UploadRead # calls\<rparr>)
         \<and> (length emb = 512 \<longrightarrow> (\<exists>r. res = Inr r))
         \<and> (length emb \<noteq> 512 \<longrightarrow> (\<exists>d. res = Inl (HTTPException 500 d)))))"
  by (auto simp: embed_image_def Let_def new_ImageEmbeddingResponse_def split: prod.splits sum.splits)

lemma cold_text_run:
  "embed_text noon cold_state pepe_request =
     (Inl (HTTPException 500 ''Text embedding generation failed: Model not loaded''), cold_state)"
  by (simp add: embed_text_def encode_text_def is_loaded_def cold_state_def initial_state_def
        unloaded_service_def Let_def)

lemma ready_text_run:
  "embed_text noon ready_state pepe_request =
     (Inr \<lparr>text_embedding = unit_normalize axis_row, text_model = ''ViT-B-32'',
           text_processing_time_ms = 12, processed_text = ''pepe''\<rparr>,
      ready_state\<lparr>request_counter := 1, last_request_time := Some 1700000000,
                  io_log := [EncodeTextCall (Some ''pepe'')]\<rparr>)"
  by (simp add: embed_text_def encode_text_def is_loaded_def ready_state_def initial_state_def
        unloaded_service_def load_model_def axis_model_def Let_def apply_prompt_template_def
        pepe_request_def new_TextEmbeddingResponse_def length_unit_normalize noon_def)

lemma ready_image_run:
  "embed_image noon ready_state png_upload =
     (Inr \<lparr>image_embedding = unit_normalize axis_row, image_model = ''ViT-B-32'',
           image_processing_time_ms = 12\<rparr>,
      ready_state\<lparr>request_counter := 1, last_request_time := Some 1700000000,
                  io_log := [UploadRead, EncodeImageCall png_bytes]\<rparr>)"
  by (simp add: embed_image_def encode_image_def is_loaded_def ready_state_def initial_state_def
        unloaded_service_def load_model_def axis_model_def Let_def png_upload_def type_allowed_iff
        new_ImageEmbeddingResponse_def length_unit_normalize noon_def png_bytes_def)

lemma broken_image_run:
  "embed_image noon ready_state broken_upload =
     (Inl (HTTPException 500 ''Image embedding generation failed: read failed''),
      ready_state\<lparr>io_log := [UploadRead]\<rparr>)"
  by (simp add: embed_image_def ready_state_def initial_state_def Let_def broken_upload_def
        type_allowed_iff)

lemma empty_image_run:
  "embed_image noon ready_state empty_upload =
     (Inl (HTTPException 500
        ''Image embedding generation failed: Image encoding failed: cannot identify image file''),
      ready_state\<lparr>io_log := [UploadRead, EncodeImageCall []]\<rparr>)"
  by (simp add: embed_image_def encode_image_def is_loaded_def ready_state_def initial_state_def
        unloaded_service_def load_model_def axis_model_def Let_def empty_upload_def type_allowed_iff)

lemma two_text_run:
  "embed_batch dict_get one_file noon ready_state two_text_batch =
     (Inr two_text_response,
      ready_state\<lparr>request_counter := 2, last_request_time := Some 1700000000,
                  io_log := [EncodeTextCall (Some ''pepe''), EncodeTextCall (Some ''wojak'')]\<rparr>)"
  by (simp add: embed_batch_def two_text_batch_def try_item_def dict_get_def
        encode_text_def is_loaded_def load_model_def unloaded_service_def axis_model_def
        ready_state_def initial_state_def noon_def two_text_response_def)

lemma empty_batch_run:
  "embed_batch pydantic_get one_file noon ready_state empty_batch =
     (Inr empty_response, ready_state\<lparr>last_request_time := Some 1700000000\<rparr>)"
  by (simp add: embed_batch_def empty_batch_def ready_state_def initial_state_def noon_def
        empty_response_def)

text \<open>
  C9: when encoding raises in /embed/text, or reading the upload or encoding raises in
  /embed/image, the request is answered with HTTP 500 and leaves the request counter and
  the last-request time as they were; and a request that changed either of them got an
  embedding back from its encode call. (The prompt template is a total string function
  and raises nothing.)
\<close>

theorem failed_request_keeps_counters:
  "(fst (encode_text (embedding_service st)
          (Some (apply_prompt_template (embedding_service st) (req_text request)
                   (req_prompt_template request)))) = Inl e \<longrightarrow>
      (\<exists>d. fst (embed_text clk st request) = Inl (HTTPException 500 d))
      \<and> request_counter (snd (embed_text clk st request)) = request_counter st
      \<and> last_request_time (snd (embed_text clk st request)) = last_request_time st)
   \<and> (type_allowed (content_type upload) \<and> read_result upload = Inl e \<longrightarrow>
      (\<exists>d. fst (embed_image clk st upload) = Inl (HTTPException 500 d))
      \<and> request_counter (snd (embed_image clk st upload)) = request_counter st
      \<and> last_request_time (snd (embed_image clk st upload)) = last_request_time st)
   \<and> (type_allowed (content_type upload) \<and> read_result upload = Inr image_bytes
        \<and> fst (encode_image (embedding_service st) image_bytes) = Inl e \<longrightarrow>
      (\<exists>d. fst (embed_image clk st upload) = Inl (HTTPException 500 d))
      \<and> request_counter (snd (embed_image clk st upload)) = request_counter st
      \<and> last_request_time (snd (embed_image clk st upload)) = last_request_time st)
   \<and> (request_counter (snd (embed_text clk st request)) \<noteq> request_counter st
        \<or> last_request_time (snd (embed_text clk st request)) \<noteq> last_request_time st \<longrightarrow>
      (\<exists>emb. fst (encode_text (embedding_service st)
          (Some (apply_prompt_template (embedding_service st) (req_text request)
                   (req_prompt_template request)))) = Inr emb))
   \<and> (request_counter (snd (embed_image clk st upload)) \<noteq> request_counter st
        \<or> last_request_time (snd (embed_image clk st upload)) \<noteq> last_request_time st \<longrightarrow>
      (\<exists>b emb. read_result upload = Inr b
          \<and> fst (encode_image (embedding_service st) b) = Inr emb))"
proof -
  note t = embed_text_cases [of st request clk]
  note i = embed_image_cases [of upload clk st]
  show ?thesis
  proof (intro conjI impI)
    assume "fst (encode_text (embedding_service st)
          (Some (apply_prompt_template (embedding_service st) (req_text request)
                   (req_prompt_template request)))) = Inl e"
    with t show "\<exists>d. fst (embed_text clk st request) = Inl (HTTPException 500 d)"
      and "request_counter (snd (embed_text clk st request)) = request_counter st"
      and "last_request_time (snd (embed_text clk st request)) = last_request_time st"
      by auto
  next
    assume "type_allowed (content_type upload) \<and> read_result upload = Inl e"
    with i show "\<exists>d. fst (embed_image clk st upload) = Inl (HTTPException 500 d)"
      and "request_counter (snd (embed_image clk st upload)) = request_counter st"
      and "last_request_time (snd (embed_image clk st upload)) = last_request_time st"
      by auto
  next
    assume "type_allowed (content_type upload) \<and> read_result upload = Inr image_bytes
        \<and> fst (encode_image (embedding_service st) image_bytes) = Inl e"
    with i show "\<exists>d. fst (embed_image clk st upload) = Inl (HTTPException 500 d)"
      and "request_counter (snd (embed_image clk st upload)) = request_counter st"
      and "last_request_time (snd (embed_image clk st upload)) = last_request_time st"
      by auto
  next
    assume "request_counter (snd (embed_text clk st request)) \<noteq> request_counter st
        \<or> last_request_time (snd (embed_text clk st request)) \<noteq> last_request_time st"
    with t show "\<exists>emb. fst (encode_text (embedding_service st)
          (Some (apply_prompt_template (embedding_service st) (req_text request)
                   (req_prompt_template request)))) = Inr emb"
      by auto
  next
    assume "request_counter (snd (embed_image clk st upload)) \<noteq> request_counter st
        \<or> last_request_time (snd (embed_image clk st upload)) \<noteq> last_request_time st"
    with i show "\<exists>b emb. read_result upload = Inr b
          \<and> fst (encode_image (embedding_service st) b) = Inr emb"
      by auto
  qed
qed

theorem failed_request_keeps_counters_witness:
  "fst (encode_text (embedding_service cold_state) (Some ''pepe'')) = Inl (RuntimeError ''Model not loaded'')
   \<and> fst (embed_text noon cold_state pepe_request)
       = Inl (HTTPException 500 ''Text embedding generation failed: Model not loaded'')
   \<and> request_counter (snd (embed_text noon cold_state pepe_request)) = request_counter cold_state
   \<and> last_request_time (snd (embed_text noon cold_state pepe_request)) = last_request_time cold_state
   \<and> type_allowed (content_type broken_upload) \<and> read_result broken_upload = Inl (OSError ''read failed'')
   \<and> fst (embed_image noon ready_state broken_upload)
       = Inl (HTTPException 500 ''Image embedding generation failed: read failed'')
   \<and> request_counter (snd (embed_image noon ready_state broken_upload)) = request_counter ready_state
   \<and> last_request_time (snd (embed_image noon ready_state broken_upload)) = last_request_time ready_state
   \<and> type_allowed (content_type empty_upload) \<and> read_result empty_upload = Inr []
   \<and> fst (encode_image (embedding_service ready_state) [])
       = Inl (RuntimeError ''Image encoding failed: cannot identify image file'')
   \<and> fst (embed_image noon ready_state empty_upload)
       = Inl (HTTPException 500
           ''Image embedding generation failed: Image encoding failed: cannot identify image file'')
   \<and> request_counter (snd (embed_image noon ready_state empty_upload)) = request_counter ready_state
   \<and> last_request_time (snd (embed_image noon ready_state empty_upload)) = last_request_time ready_state
   \<and> request_counter (snd (embed_text noon ready_state pepe_request)) \<noteq> request_counter ready_state
   \<and> fst (encode_text (embedding_service ready_state) (Some ''pepe'')) = Inr (unit_normalize axis_row)
   \<and> request_counter (snd (embed_image noon ready_state png_upload)) \<noteq> request_counter ready_state
   \<and> read_result png_upload = Inr png_bytes
   \<and> fst (encode_image (embedding_service ready_state) png_bytes) = Inr (unit_normalize axis_row)"
  using failed_request_keeps_counters [where st = cold_state and request = pepe_request
            and clk = noon and e = "RuntimeError ''Model not loaded''" and upload = broken_upload
            and image_bytes = "[]"]
        failed_request_keeps_counters [where st = ready_state and request = pepe_request
            and clk = noon and e = "OSError ''read failed''" and upload = broken_upload
            and image_bytes = "[]"]
        failed_request_keeps_counters [where st = ready_state and request = pepe_request
            and clk = noon and e = "RuntimeError ''Image encoding failed: cannot identify image file''"
            and upload = empty_upload and image_bytes = "[]"]
        failed_request_keeps_counters [where st = ready_state and request = pepe_request
            and clk = noon and e = "RuntimeError ''Model not loaded''" and upload = png_upload
            and image_bytes = "[]"]
  by (simp add: cold_text_run ready_text_run ready_image_run broken_image_run empty_image_run)
     (simp add: cold_state_def ready_state_def initial_state_def encode_text_def encode_image_def
        is_loaded_def unloaded_service_def load_model_def axis_model_def broken_upload_def
        empty_upload_def png_upload_def type_allowed_iff png_bytes_def)

text \<open>
  C7, amended: an /embed/text or /embed/image request that returns a response increments
  the request counter by exactly one; a batch request that returns a response adds the
  number of its successfully embedded entries (not one); each of them sets the
  last-request time to the time of the request; and the health check reports the two
  values as they stand.
\<close>

theorem request_counter_accounting:
  "(fst (embed_text clk st request) = Inr r \<longrightarrow>
      request_counter (snd (embed_text clk st request)) = request_counter st + 1
      \<and> last_request_time (snd (embed_text clk st request)) = Some (now clk))
   \<and> (fst (embed_image clk st upload) = Inr r' \<longrightarrow>
      request_counter (snd (embed_image clk st upload)) = request_counter st + 1
      \<and> last_request_time (snd (embed_image clk st upload)) = Some (now clk))
   \<and> (fst (embed_batch getf fs clk st batch) = Inr b \<longrightarrow>
      request_counter (snd (embed_batch getf fs clk st batch)) = request_counter st + successful b
      \<and> successful b = int (length (filter entry_success (embeddings b)))
      \<and> last_request_time (snd (embed_batch getf fs clk st batch)) = Some (now clk))
   \<and> total_requests (fst (health_check st)) = request_counter st
   \<and> last_request (fst (health_check st)) = last_request_time st"
proof (intro conjI impI)
  assume "fst (embed_text clk st request) = Inr r"
  with embed_text_cases [of st request clk]
  show "request_counter (snd (embed_text clk st request)) = request_counter st + 1"
    and "last_request_time (snd (embed_text clk st request)) = Some (now clk)"
    by auto
next
  assume "fst (embed_image clk st upload) = Inr r'"
  with embed_image_cases [of upload clk st]
  show "request_counter (snd (embed_image clk st upload)) = request_counter st + 1"
    and "last_request_time (snd (embed_image clk st upload)) = Some (now clk)"
    by auto
next
  assume run: "fst (embed_batch getf fs clk st batch) = Inr b"
  from run obtain acc where
    l: "batch_loop getf fs (embedding_service st) (batch_type batch) (batch_items batch)
       \<lparr>acc_embeddings = [], acc_successful = 0, acc_failed = 0, acc_log = []\<rparr> = (None, acc)"
    and e: "embeddings b = acc_embeddings acc" "successful b = acc_successful acc"
    and c: "request_counter (snd (embed_batch getf fs clk st batch)) = request_counter st + acc_successful acc"
    and t: "last_request_time (snd (embed_batch getf fs clk st batch)) = Some (now clk)"
    by (rule embed_batch_Inr)
  have "counts_agree acc"
    by (rule batch_loop_counts [OF l]) (simp add: counts_agree_def)
  with e c t
  show "request_counter (snd (embed_batch getf fs clk st batch)) = request_counter st + successful b"
    and "successful b = int (length (filter entry_success (embeddings b)))"
    and "last_request_time (snd (embed_batch getf fs clk st batch)) = Some (now clk)"
    by (simp_all add: counts_agree_def)
next
  show "total_requests (fst (health_check st)) = request_counter st"
    and "last_request (fst (health_check st)) = last_request_time st"
    by (simp_all add: health_check_def Let_def)
qed

theorem request_counter_accounting_witness:
  "fst (embed_text noon ready_state pepe_request)
     = Inr \<lparr>text_embedding = unit_normalize axis_row, text_model = ''ViT-B-32'',
            text_processing_time_ms = 12, processed_text = ''pepe''\<rparr>
   \<and> request_counter (snd (embed_text noon ready_state pepe_request)) = request_counter ready_state + 1
   \<and> last_request_time (snd (embed_text noon ready_state pepe_request)) = Some (now noon)
   \<and> fst (embed_image noon ready_state png_upload)
     = Inr \<lparr>image_embedding = unit_normalize axis_row, image_model = ''ViT-B-32'',
            image_processing_time_ms = 12\<rparr>
   \<and> request_counter (snd (embed_image noon ready_state png_upload)) = request_counter ready_state + 1
   \<and> last_request_time (snd (embed_image noon ready_state png_upload)) = Some (now noon)
   \<and> fst (embed_batch dict_get one_file noon ready_state two_text_batch) = Inr two_text_response
   \<and> request_counter (snd (embed_batch dict_get one_file noon ready_state two_text_batch))
       = request_counter ready_state + 2
   \<and> successful two_text_response = 2
   \<and> last_request_time (snd (embed_batch dict_get one_file noon ready_state two_text_batch))
       = Some (now noon)"
proof -
  have r1: "fst (embed_text noon ready_state pepe_request)
     = Inr \<lparr>text_embedding = unit_normalize axis_row, text_model = ''ViT-B-32'',
            text_processing_time_ms = 12, processed_text = ''pepe''\<rparr>"
    by (simp add: ready_text_run)
  have r2: "fst (embed_image noon ready_state png_upload)
     = Inr \<lparr>image_embedding = unit_normalize axis_row, image_model = ''ViT-B-32'',
            image_processing_time_ms = 12\<rparr>"
    by (simp add: ready_image_run)
  have r3: "fst (embed_batch dict_get one_file noon ready_state two_text_batch) = Inr two_text_response"
    by (simp add: two_text_run)
  have s: "successful two_text_response = 2"
    by (simp add: two_text_response_def)
  show ?thesis
    using r1 r2 r3 s
      request_counter_accounting [where clk = noon and st = ready_state and request = pepe_request
        and upload = png_upload and getf = dict_get and fs = one_file and batch = two_text_batch
        and r = "\<lparr>text_embedding = unit_normalize axis_row, text_model = ''ViT-B-32'',
            text_processing_time_ms = 12, processed_text = ''pepe''\<rparr>"
        and r' = "\<lparr>image_embedding = unit_normalize axis_row, image_model = ''ViT-B-32'',
            image_processing_time_ms = 12\<rparr>"
        and b = two_text_response]
    by simp
qed

text \<open>
  C7 as stated fails on a batch: the handler adds \<open>successful\<close> to the counter. An
  empty batch is served, and the counter stays where it was.
\<close>

theorem empty_batch_served_uncounted:
  "fst (embed_batch pydantic_get one_file noon ready_state empty_batch) = Inr empty_response
   \<and> request_counter (snd (embed_batch pydantic_get one_file noon ready_state empty_batch))
       = request_counter ready_state
   \<and> request_counter (snd (embed_batch pydantic_get one_file noon ready_state empty_batch))
       \<noteq> request_counter ready_state + 1
   \<and> last_request_time (snd (embed_batch pydantic_get one_file noon ready_state empty_batch))
       = Some (now noon)"
  by (simp add: empty_batch_run) (simp add: noon_def)

end
